theory Spec2Isabelle
  imports Complex_Main "HOL-Library.Multiset" "HOL-Library.List_Lexorder" "HOL-Library.Char_ord"
begin

section \<open>Tables\<close>

text \<open>
  The dashboard of \<^verbatim>\<open>siuu.py\<close> works on three pandas tables. A cell holds text, a
  number, or nothing (pandas' NaN); a table is a list of column labels and a list of rows.
  Numbers are real numbers here: rounding of floating-point arithmetic and the difference
  between integer and floating columns are not part of the model. Strings are lists of
  8-bit characters, which is what the Latin-1 decoding of the three files yields.
\<close>

datatype val = Text string | Number real

type_synonym cell = "val option"

record frame =
  columns :: "string list"
  rows :: "cell list list"

text \<open>Every row of a table has one cell for each column.\<close>

definition frame_ok :: "frame \<Rightarrow> bool" where
  "frame_ok df = list_all (\<lambda>r. length r = length (columns df)) (rows df)"

datatype error = FileNotFoundError | KeyError | AttributeError | TypeError | ValueError

definition bind :: "error + 'a \<Rightarrow> ('a \<Rightarrow> error + 'b) \<Rightarrow> error + 'b" where
  "bind m f = (case m of Inl e \<Rightarrow> Inl e | Inr x \<Rightarrow> f x)"

subsection \<open>Column access\<close>

fun positions :: "string list \<Rightarrow> string \<Rightarrow> nat list" where
  "positions [] name = []"
| "positions (c # cs) name = (if c = name then [0] else []) @ map Suc (positions cs name)"

text \<open>
  \<^verbatim>\<open>df[name]\<close>: a label that is absent raises KeyError. A label that occurs twice selects a
  table rather than a column, and the column operations of this program (\<^verbatim>\<open>.str\<close>,
  \<^verbatim>\<open>.unique\<close>) then raise AttributeError; \<^verbatim>\<open>read_csv\<close> never yields a repeated label, only
  the renaming of Table 1 can.
\<close>

definition series :: "frame \<Rightarrow> string \<Rightarrow> error + cell list" where
  "series df name =
     (case positions (columns df) name of
        [] \<Rightarrow> Inl KeyError
      | [i] \<Rightarrow> Inr (map (\<lambda>r. r ! i) (rows df))
      | _ \<Rightarrow> Inl AttributeError)"

text \<open>\<^verbatim>\<open>df[name] = values\<close>: overwrites the column, or appends it when the label is new.\<close>

definition setitem :: "frame \<Rightarrow> string \<Rightarrow> cell list \<Rightarrow> frame" where
  "setitem df name vs =
     (case positions (columns df) name of
        [] \<Rightarrow> df\<lparr>columns := columns df @ [name], rows := map2 (\<lambda>r v. r @ [v]) (rows df) vs\<rparr>
      | ps \<Rightarrow> df\<lparr>rows := map2 (\<lambda>r v. fold (\<lambda>i r'. r'[i := v]) ps r) (rows df) vs\<rparr>)"

text \<open>\<^verbatim>\<open>df[mask]\<close> and \<^verbatim>\<open>s[mask]\<close>: the rows, or entries, at which the mask is true.\<close>

definition select :: "bool list \<Rightarrow> 'a list \<Rightarrow> 'a list" where
  "select msk xs = map snd (filter fst (zip msk xs))"

definition select_rows :: "bool list \<Rightarrow> frame \<Rightarrow> frame" where
  "select_rows msk df = df\<lparr>rows := select msk (rows df)\<rparr>"

text \<open>\<^verbatim>\<open>df.empty\<close>: no rows or no columns.\<close>

definition empty :: "frame \<Rightarrow> bool" where
  "empty df = (rows df = [] \<or> columns df = [])"

definition rename :: "(string \<times> string) list \<Rightarrow> frame \<Rightarrow> frame" where
  "rename m df =
     df\<lparr>columns := map (\<lambda>c. case map_of m c of None \<Rightarrow> c | Some c' \<Rightarrow> c') (columns df)\<rparr>"

subsection \<open>Operations on a column\<close>

definition dropna :: "cell list \<Rightarrow> val list" where
  "dropna cs = [v. Some v \<leftarrow> cs]"

text \<open>\<^verbatim>\<open>unique()\<close>: the distinct values, in the order in which they first occur.\<close>

fun unique :: "'a list \<Rightarrow> 'a list" where
  "unique [] = []"
| "unique (x # xs) = x # unique (filter (\<lambda>y. y \<noteq> x) xs)"

text \<open>
  \<^verbatim>\<open>astype(str)\<close>: text stays, a missing cell becomes the text \<^verbatim>\<open>nan\<close>, a number is printed.
  How pandas prints a number is a parameter \<open>fmt\<close> of the model.
\<close>

definition str_val :: "(real \<Rightarrow> string) \<Rightarrow> val \<Rightarrow> string" where
  "str_val fmt v = (case v of Text s \<Rightarrow> s | Number x \<Rightarrow> fmt x)"

definition astype_str :: "(real \<Rightarrow> string) \<Rightarrow> cell \<Rightarrow> string" where
  "astype_str fmt c = (case c of None \<Rightarrow> ''nan'' | Some v \<Rightarrow> str_val fmt v)"

text \<open>
  \<^verbatim>\<open>str.upper()\<close>, on the letters a to z. Python maps accented letters as well; here they
  are left as they are, like every other character.
\<close>

definition upper_char :: "char \<Rightarrow> char" where
  "upper_char c =
     (case map_of (zip ''abcdefghijklmnopqrstuvwxyz'' ''ABCDEFGHIJKLMNOPQRSTUVWXYZ'') c of
        None \<Rightarrow> c
      | Some C \<Rightarrow> C)"

definition upper :: "string \<Rightarrow> string" where
  "upper s = map upper_char s"

text \<open>\<^verbatim>\<open>str.strip()\<close>: removes the white space at both ends.\<close>

definition is_space :: "char \<Rightarrow> bool" where
  "is_space c =
     (c \<in> set [CHR 0x09, CHR 0x0A, CHR 0x0B, CHR 0x0C, CHR 0x0D, CHR 0x1C, CHR 0x1D,
                CHR 0x1E, CHR 0x1F, CHR 0x20, CHR 0x85, CHR 0xA0])"

definition strip :: "string \<Rightarrow> string" where
  "strip s = rev (dropWhile is_space (rev (dropWhile is_space s)))"

text \<open>
  \<^verbatim>\<open>pd.to_numeric(..., errors="coerce")\<close> on one cell: a number stays, text is parsed, and
  text that is no number becomes a missing cell. The parser of pandas is a parameter
  \<open>parse\<close> of the model.
\<close>

definition to_numeric :: "(string \<Rightarrow> real option) \<Rightarrow> cell \<Rightarrow> cell" where
  "to_numeric parse c =
     (case c of
        None \<Rightarrow> None
      | Some (Number x) \<Rightarrow> Some (Number x)
      | Some (Text s) \<Rightarrow> map_option Number (parse s))"

text \<open>\<^verbatim>\<open>isin(values)\<close>: true where the cell is one of the values.\<close>

definition isin :: "cell list \<Rightarrow> val list \<Rightarrow> bool list" where
  "isin cs vs = map (\<lambda>c. case c of None \<Rightarrow> False | Some v \<Rightarrow> v \<in> set vs) cs"

text \<open>
  \<^verbatim>\<open>value_counts()\<close>: each distinct value with the number of its occurrences, the most
  frequent first; values of equal frequency keep the order of their first occurrence.
\<close>

definition value_counts :: "'a list \<Rightarrow> ('a \<times> nat) list" where
  "value_counts xs =
     sort_key (\<lambda>p. - int (snd p)) (map (\<lambda>v. (v, count_list xs v)) (unique xs))"

text \<open>\<^verbatim>\<open>idxmax()\<close>: the label of the first entry that holds the maximum.\<close>

fun first_max :: "'a \<times> nat \<Rightarrow> ('a \<times> nat) list \<Rightarrow> 'a \<times> nat" where
  "first_max b [] = b"
| "first_max b (p # ps) = first_max (if snd b < snd p then p else b) ps"

definition idxmax :: "('a \<times> nat) list \<Rightarrow> error + 'a" where
  "idxmax ps = (case ps of [] \<Rightarrow> Inl ValueError | p # ps' \<Rightarrow> Inr (fst (first_max p ps')))"

definition max_count :: "('a \<times> nat) list \<Rightarrow> nat" where
  "max_count ps = fold max (map snd ps) 0"

text \<open>
  \<^verbatim>\<open>mode()\<close>: the values of highest frequency, sorted.
\<close>

definition mode :: "string list \<Rightarrow> string list" where
  "mode xs = sort [v \<leftarrow> unique xs. list_all (\<lambda>w. count_list xs w \<le> count_list xs v) xs]"

text \<open>The numbers and the texts among the cells of a column.\<close>

definition numbers :: "cell list \<Rightarrow> real list" where
  "numbers cs = [x. Some (Number x) \<leftarrow> cs]"

definition texts :: "cell list \<Rightarrow> string list" where
  "texts cs = [s. Some (Text s) \<leftarrow> cs]"

text \<open>
  \<^verbatim>\<open>mean()\<close>: the missing cells are skipped; with no number left the mean is itself
  missing. Text in the column raises TypeError.
\<close>

definition mean :: "cell list \<Rightarrow> error + real option" where
  "mean cs =
     (if texts cs \<noteq> [] then Inl TypeError
      else let xs = numbers cs
           in Inr (if xs = [] then None else Some (sum_list xs / real (length xs))))"

text \<open>
  \<^verbatim>\<open>sorted()\<close> on a collection of cell values: text is ordered by character codes and
  numbers by size; Python cannot compare text with a number.
\<close>

definition sorted_py :: "val list \<Rightarrow> error + val list" where
  "sorted_py vs =
     (let ts = texts (map Some vs); ns = numbers (map Some vs)
      in if ns = [] then Inr (map Text (sort ts))
         else if ts = [] then Inr (map Number (sort ns))
         else Inl TypeError)"

section \<open>Loading: \<^verbatim>\<open>load_data\<close>\<close>

definition COL_TIEMPO_ENTRE_FALLAS :: string where
  "COL_TIEMPO_ENTRE_FALLAS = ''Tiempo_Entre_Fallas''"

definition COL_IDX_TIEMPO :: string where
  "COL_IDX_TIEMPO = ''Indice_Tiempo''"

definition COL_FORECAST :: string where
  "COL_FORECAST = ''Forecast''"

text \<open>\<^verbatim>\<open>pd.read_csv(path)\<close>: the table of the file, or FileNotFoundError without a file.\<close>

definition read_csv :: "frame option \<Rightarrow> error + frame" where
  "read_csv file = (case file of None \<Rightarrow> Inl FileNotFoundError | Some df \<Rightarrow> Inr df)"

text \<open>\<^verbatim>\<open>df["Maquina"] = df["Maquina"].astype(str).str.upper()\<close>\<close>

definition upper_maquina :: "(real \<Rightarrow> string) \<Rightarrow> frame \<Rightarrow> error + frame" where
  "upper_maquina fmt df =
     bind (series df ''Maquina'') (\<lambda>m.
       Inr (setitem df ''Maquina'' (map (\<lambda>c. Some (Text (upper (astype_str fmt c)))) m)))"

text \<open>\<^verbatim>\<open>df[name] = pd.to_numeric(df[name], errors="coerce")\<close>\<close>

definition coerce :: "(string \<Rightarrow> real option) \<Rightarrow> string \<Rightarrow> frame \<Rightarrow> error + frame" where
  "coerce parse name df =
     bind (series df name) (\<lambda>c. Inr (setitem df name (map (to_numeric parse) c)))"

text \<open>The renaming of the columns of Table 1.\<close>

definition renombrar :: "frame \<Rightarrow> frame" where
  "renombrar tabla1 =
     rename [(''Machine Name'', ''Maquina''), (''Shift'', ''Turno''),
             (''EQ Type'', ''EQ_Type'')] tabla1"

definition load_tabla1 :: "(real \<Rightarrow> string) \<Rightarrow> frame option \<Rightarrow> error + frame" where
  "load_tabla1 fmt file =
     bind (read_csv file) (\<lambda>tabla1. upper_maquina fmt (renombrar tabla1))"

definition load_tabla2 ::
  "(real \<Rightarrow> string) \<Rightarrow> (string \<Rightarrow> real option) \<Rightarrow> frame option \<Rightarrow> error + frame" where
  "load_tabla2 fmt parse file =
     bind (read_csv file) (\<lambda>tabla2.
     bind (if ''Maquina'' \<in> set (columns tabla2) then upper_maquina fmt tabla2 else Inr tabla2)
       (\<lambda>tabla2.
     bind (coerce parse COL_TIEMPO_ENTRE_FALLAS tabla2) (\<lambda>tabla2.
       coerce parse COL_IDX_TIEMPO tabla2)))"

definition load_tabla3 ::
  "(real \<Rightarrow> string) \<Rightarrow> (string \<Rightarrow> real option) \<Rightarrow> frame option \<Rightarrow> error + frame" where
  "load_tabla3 fmt parse file =
     bind (read_csv file) (\<lambda>tabla3.
     bind (if ''Maquina'' \<in> set (columns tabla3) then upper_maquina fmt tabla3 else Inr tabla3)
       (\<lambda>tabla3.
     bind (coerce parse COL_FORECAST tabla3) (\<lambda>tabla3.
       coerce parse COL_IDX_TIEMPO tabla3)))"

definition load_data ::
  "(real \<Rightarrow> string) \<Rightarrow> (string \<Rightarrow> real option) \<Rightarrow>
   frame option \<Rightarrow> frame option \<Rightarrow> frame option \<Rightarrow> error + (frame \<times> frame \<times> frame)" where
  "load_data fmt parse file1 file2 file3 =
     bind (load_tabla1 fmt file1) (\<lambda>tabla1.
     bind (load_tabla2 fmt parse file2) (\<lambda>tabla2.
     bind (load_tabla3 fmt parse file3) (\<lambda>tabla3.
       Inr (tabla1, tabla2, tabla3))))"

section \<open>The dashboard: \<^verbatim>\<open>main\<close>\<close>

text \<open>
  \<^verbatim>\<open>st.sidebar.selectbox(label, options=[first] + rest)\<close> returns one of its options: the
  one picked, and the first one as long as nothing that is on offer has been picked.
\<close>

definition selectbox :: "'a \<Rightarrow> 'a list \<Rightarrow> 'a \<Rightarrow> 'a" where
  "selectbox first rest pick = (if pick \<in> set rest then pick else first)"

subsection \<open>Options of the two selectors\<close>

definition clusters_disp :: "(real \<Rightarrow> string) \<Rightarrow> frame \<Rightarrow> error + string list" where
  "clusters_disp fmt tabla1 =
     (if ''Cluster'' \<in> set (columns tabla1)
      then bind (series tabla1 ''Cluster'') (\<lambda>c.
             Inr (sort (unique (map (str_val fmt) (dropna c)))))
      else Inr [])"

definition maqs_t1 :: "(real \<Rightarrow> string) \<Rightarrow> frame \<Rightarrow> string \<Rightarrow> error + val list" where
  "maqs_t1 fmt tabla1 cluster_sel =
     (if cluster_sel = ''Todos'' \<or> ''Cluster'' \<notin> set (columns tabla1)
      then bind (series tabla1 ''Maquina'') (\<lambda>m. Inr (unique (dropna m)))
      else bind (series tabla1 ''Cluster'') (\<lambda>c.
           bind (series tabla1 ''Maquina'') (\<lambda>m.
             Inr (unique (dropna (select (map (\<lambda>x. astype_str fmt x = cluster_sel) c) m))))))"

text \<open>\<^verbatim>\<open>tabla["Maquina"].dropna().unique()\<close>, for Tables 2 and 3.\<close>

definition maqs :: "frame \<Rightarrow> error + val list" where
  "maqs tabla = bind (series tabla ''Maquina'') (\<lambda>m. Inr (unique (dropna m)))"

definition maquinas ::
  "(real \<Rightarrow> string) \<Rightarrow> frame \<Rightarrow> frame \<Rightarrow> frame \<Rightarrow> string \<Rightarrow> error + val list" where
  "maquinas fmt tabla1 tabla2 tabla3 cluster_sel =
     bind (maqs_t1 fmt tabla1 cluster_sel) (\<lambda>maqs_t1.
     bind (maqs tabla2) (\<lambda>maqs_t2.
     bind (maqs tabla3) (\<lambda>maqs_t3.
       sorted_py (remdups (maqs_t1 @ maqs_t2 @ maqs_t3)))))"

subsection \<open>The two filters\<close>

text \<open>\<^verbatim>\<open>t1[t1["Cluster"].astype(str) == cluster_sel]\<close>\<close>

definition por_cluster :: "(real \<Rightarrow> string) \<Rightarrow> string \<Rightarrow> frame \<Rightarrow> error + frame" where
  "por_cluster fmt cluster_sel t1 =
     bind (series t1 ''Cluster'') (\<lambda>c.
       Inr (select_rows (map (\<lambda>x. astype_str fmt x = cluster_sel) c) t1))"

text \<open>\<^verbatim>\<open>t1["Maquina"].dropna().unique()\<close>, on the Table 1 of the cluster.\<close>

definition maquinas_cluster :: "frame \<Rightarrow> error + val list" where
  "maquinas_cluster t1 = bind (series t1 ''Maquina'') (\<lambda>m. Inr (unique (dropna m)))"

text \<open>\<^verbatim>\<open>t[t["Maquina"].isin(maquinas_cluster)]\<close>\<close>

definition en_maquinas :: "val list \<Rightarrow> frame \<Rightarrow> error + frame" where
  "en_maquinas ms t = bind (series t ''Maquina'') (\<lambda>m. Inr (select_rows (isin m ms) t))"

definition filtro_cluster ::
  "(real \<Rightarrow> string) \<Rightarrow> string \<Rightarrow> frame \<Rightarrow> frame \<Rightarrow> frame \<Rightarrow> error + (frame \<times> frame \<times> frame)" where
  "filtro_cluster fmt cluster_sel t1 t2 t3 =
     (if cluster_sel \<noteq> ''Todos'' \<and> ''Cluster'' \<in> set (columns t1)
      then bind (por_cluster fmt cluster_sel t1) (\<lambda>t1.
           bind (maquinas_cluster t1) (\<lambda>ms.
           bind (en_maquinas ms t2) (\<lambda>t2.
           bind (en_maquinas ms t3) (\<lambda>t3.
             Inr (t1, t2, t3)))))
      else Inr (t1, t2, t3))"

text \<open>\<^verbatim>\<open>t[t["Maquina"] == maquina_sel]\<close>\<close>

definition es_maquina :: "val \<Rightarrow> frame \<Rightarrow> error + frame" where
  "es_maquina maquina_sel t =
     bind (series t ''Maquina'') (\<lambda>m. Inr (select_rows (map (\<lambda>c. c = Some maquina_sel) m) t))"

definition filtro_maquina ::
  "val \<Rightarrow> frame \<Rightarrow> frame \<Rightarrow> frame \<Rightarrow> error + (frame \<times> frame \<times> frame)" where
  "filtro_maquina maquina_sel t1 t2 t3 =
     (if maquina_sel \<noteq> Text ''Todas''
      then bind (es_maquina maquina_sel t1) (\<lambda>t1.
           bind (es_maquina maquina_sel t2) (\<lambda>t2.
           bind (es_maquina maquina_sel t3) (\<lambda>t3.
             Inr (t1, t2, t3))))
      else Inr (t1, t2, t3))"

definition filtros ::
  "(real \<Rightarrow> string) \<Rightarrow> string \<Rightarrow> val \<Rightarrow> frame \<Rightarrow> frame \<Rightarrow> frame \<Rightarrow>
   error + (frame \<times> frame \<times> frame)" where
  "filtros fmt cluster_sel maquina_sel tabla1 tabla2 tabla3 =
     bind (filtro_cluster fmt cluster_sel tabla1 tabla2 tabla3) (\<lambda>(t1, t2, t3).
       filtro_maquina maquina_sel t1 t2 t3)"

subsection \<open>Indicators\<close>

text \<open>
  What \<^verbatim>\<open>st.metric\<close> is given: a text, a number printed with two decimals
  (\<^verbatim>\<open>f"{prom_tiempo:.2f}"\<close>), or a machine with its count (\<^verbatim>\<open>f"{maq_top} ({maq_top_ct})"\<close>).
\<close>

datatype metric = Texto string | Decimales real | Maquina_cuenta string nat

definition total_fallas :: "frame \<Rightarrow> nat" where
  "total_fallas t1 = (if \<not> empty t1 then length (rows t1) else 0)"

definition serie_validos :: "(real \<Rightarrow> string) \<Rightarrow> cell list \<Rightarrow> string list" where
  "serie_validos fmt m =
     (let serie_m = map (\<lambda>v. strip (str_val fmt v)) (dropna m)
      in [s \<leftarrow> serie_m. s \<noteq> [] \<and> upper s \<noteq> ''NAN''])"

definition texto_maq_top :: "(real \<Rightarrow> string) \<Rightarrow> frame \<Rightarrow> error + metric" where
  "texto_maq_top fmt tabla1 =
     (if \<not> empty tabla1
      then bind (series tabla1 ''Maquina'') (\<lambda>m.
             let conteo_global = value_counts (serie_validos fmt m)
             in if conteo_global \<noteq> []
                then bind (idxmax conteo_global) (\<lambda>maq_top.
                       Inr (Maquina_cuenta maq_top (max_count conteo_global)))
                else Inr (Texto ''Sin datos''))
      else Inr (Texto ''Sin datos''))"

text \<open>
  \<open>prom_tiempo\<close> is Python's \<^verbatim>\<open>None\<close> (here \<open>None\<close>), a missing mean (\<open>Some None\<close>) or a
  number.
\<close>

definition prom_tiempo :: "frame \<Rightarrow> error + real option option" where
  "prom_tiempo t2 =
     (if \<not> empty t2
      then bind (series t2 COL_TIEMPO_ENTRE_FALLAS) (\<lambda>c. bind (mean c) (\<lambda>x. Inr (Some x)))
      else Inr None)"

definition metric_tiempo :: "real option option \<Rightarrow> metric" where
  "metric_tiempo prom =
     (case prom of Some (Some x) \<Rightarrow> Decimales x | _ \<Rightarrow> Texto ''Sin datos'')"

definition cluster_cat :: "(real \<Rightarrow> string) \<Rightarrow> string \<Rightarrow> val \<Rightarrow> frame \<Rightarrow> error + string" where
  "cluster_cat fmt cluster_sel maquina_sel t1 =
     (if cluster_sel \<noteq> ''Todos'' then Inr cluster_sel
      else if maquina_sel = Text ''Todas'' then Inr ''Varios''
      else if ''Cluster'' \<in> set (columns t1) \<and> \<not> empty t1
           then bind (series t1 ''Cluster'') (\<lambda>c.
                  Inr (case mode (map (astype_str fmt) c) of
                         [] \<Rightarrow> ''Sin datos''
                       | moda # _ \<Rightarrow> moda))
           else Inr ''Sin datos'')"

subsection \<open>Charts\<close>

text \<open>
  A section of the page shows a figure, built from the data given here, or a message
  (\<^verbatim>\<open>st.info\<close>, \<^verbatim>\<open>st.warning\<close>) in its place. Drawing the figure is left to plotly.
\<close>

datatype 'a seccion = Figura 'a | Info | Warning

text \<open>
  The two bar charts: \<^verbatim>\<open>t1[name].value_counts().reset_index()\<close> with its two columns
  relabelled. With a repeated label the counts have more columns than the two new labels,
  which raises ValueError.
\<close>

definition barras :: "string \<Rightarrow> frame \<Rightarrow> error + (val \<times> nat) list seccion" where
  "barras name t1 =
     (if name \<in> set (columns t1) \<and> \<not> empty t1
      then (case positions (columns t1) name of
              [i] \<Rightarrow> Inr (Figura (value_counts (dropna (map (\<lambda>r. r ! i) (rows t1)))))
            | _ \<Rightarrow> Inl ValueError)
      else Inr Info)"

text \<open>\<^verbatim>\<open>df[[a, b]]\<close>: the table of the two columns.\<close>

definition getitems :: "frame \<Rightarrow> string \<Rightarrow> string \<Rightarrow> error + frame" where
  "getitems df a b =
     bind (series df a) (\<lambda>ca.
     bind (series df b) (\<lambda>cb.
       Inr \<lparr>columns = [a, b], rows = map2 (\<lambda>x y. [x, y]) ca cb\<rparr>))"

text \<open>\<^verbatim>\<open>df.dropna(subset=[name])\<close> and \<^verbatim>\<open>df.dropna()\<close>\<close>

definition dropna_subset :: "string \<Rightarrow> frame \<Rightarrow> error + frame" where
  "dropna_subset name df =
     bind (series df name) (\<lambda>c. Inr (select_rows (map (\<lambda>x. x \<noteq> None) c) df))"

definition dropna_rows :: "frame \<Rightarrow> frame" where
  "dropna_rows df = df\<lparr>rows := [r \<leftarrow> rows df. None \<notin> set r]\<rparr>"

text \<open>
  One line of the time series: the time index and the value, without the rows whose
  value is missing, tagged and with the value column relabelled.
\<close>

definition serie :: "string \<Rightarrow> string \<Rightarrow> frame \<Rightarrow> error + frame" where
  "serie valor tipo t =
     bind (getitems t COL_IDX_TIEMPO valor) (\<lambda>s.
     bind (dropna_subset valor s) (\<lambda>s.
       Inr (rename [(valor, ''Valor'')]
              (setitem s ''Tipo'' (replicate (length (rows s)) (Some (Text tipo)))))))"

text \<open>
  \<^verbatim>\<open>pd.concat([serie_real, serie_fore], ignore_index=True)\<close>; the two tables have the same
  three labels.
\<close>

definition concat_rows :: "frame \<Rightarrow> frame \<Rightarrow> frame" where
  "concat_rows a b = a\<lparr>rows := rows a @ rows b\<rparr>"

definition seccion_serie :: "string \<Rightarrow> val \<Rightarrow> frame \<Rightarrow> frame \<Rightarrow> error + frame seccion" where
  "seccion_serie cluster_sel maquina_sel t2 t3 =
     (if cluster_sel \<noteq> ''Todos'' \<and> maquina_sel = Text ''Todas'' then Inr Info
      else if empty t2 then Inr Warning
      else bind (serie COL_TIEMPO_ENTRE_FALLAS ''Real'' t2) (\<lambda>serie_real.
           if \<not> empty t3
           then bind (serie COL_FORECAST (''Predicci'' @ [CHR 0xF3] @ ''n'') t3) (\<lambda>serie_fore.
                  Inr (Figura (concat_rows serie_real serie_fore)))
           else Inr (Figura serie_real)))"

definition seccion_box :: "frame \<Rightarrow> error + frame seccion" where
  "seccion_box t2 =
     (if \<not> empty t2
      then bind (getitems t2 ''Maquina'' COL_TIEMPO_ENTRE_FALLAS) (\<lambda>b.
             Inr (Figura (dropna_rows b)))
      else Inr Info)"

subsection \<open>The page\<close>

record dashboard =
  opciones_cluster :: "string list"
  opciones_maquina :: "val list"
  filtradas :: "frame \<times> frame \<times> frame"
  kpi_total :: nat
  kpi_maq_top :: metric
  kpi_tiempo :: metric
  kpi_cluster :: string
  fig_turnos :: "(val \<times> nat) list seccion"
  fig_ubic :: "(val \<times> nat) list seccion"
  fig_serie :: "frame seccion"
  fig_box :: "frame seccion"

text \<open>
  The page for the three loaded tables and the two picks of the user, in the order in
  which \<^verbatim>\<open>main\<close> computes its parts.
\<close>

definition pagina ::
  "(real \<Rightarrow> string) \<Rightarrow> frame \<Rightarrow> frame \<Rightarrow> frame \<Rightarrow> string \<Rightarrow> val \<Rightarrow> error + dashboard" where
  "pagina fmt tabla1 tabla2 tabla3 pick_cluster pick_maquina =
     bind (clusters_disp fmt tabla1) (\<lambda>clusters_disp.
     let cluster_sel = selectbox ''Todos'' clusters_disp pick_cluster in
     bind (maquinas fmt tabla1 tabla2 tabla3 cluster_sel) (\<lambda>maquinas.
     let maquina_sel = selectbox (Text ''Todas'') maquinas pick_maquina in
     bind (filtros fmt cluster_sel maquina_sel tabla1 tabla2 tabla3) (\<lambda>(t1, t2, t3).
     bind (texto_maq_top fmt tabla1) (\<lambda>texto_maq_top.
     bind (prom_tiempo t2) (\<lambda>prom_tiempo.
     bind (cluster_cat fmt cluster_sel maquina_sel t1) (\<lambda>cluster_cat.
     bind (barras ''Turno'' t1) (\<lambda>fig_turnos.
     bind (barras ''EQ_Type'' t1) (\<lambda>fig_ubic.
     bind (seccion_serie cluster_sel maquina_sel t2 t3) (\<lambda>fig_serie.
     bind (seccion_box t2) (\<lambda>fig_box.
       Inr \<lparr>opciones_cluster = ''Todos'' # clusters_disp,
            opciones_maquina = Text ''Todas'' # maquinas,
            filtradas = (t1, t2, t3),
            kpi_total = total_fallas t1,
            kpi_maq_top = texto_maq_top,
            kpi_tiempo = metric_tiempo prom_tiempo,
            kpi_cluster = cluster_cat,
            fig_turnos = fig_turnos,
            fig_ubic = fig_ubic,
            fig_serie = fig_serie,
            fig_box = fig_box\<rparr>))))))))))"

text \<open>
  \<^verbatim>\<open>main\<close>: a missing file stops the page after an error message (\<open>None\<close>); any other
  exception leaves \<^verbatim>\<open>main\<close>.
\<close>

definition main ::
  "(real \<Rightarrow> string) \<Rightarrow> (string \<Rightarrow> real option) \<Rightarrow>
   frame option \<Rightarrow> frame option \<Rightarrow> frame option \<Rightarrow> string \<Rightarrow> val \<Rightarrow> error + dashboard option" where
  "main fmt parse file1 file2 file3 pick_cluster pick_maquina =
     (case load_data fmt parse file1 file2 file3 of
        Inl FileNotFoundError \<Rightarrow> Inr None
      | Inl e \<Rightarrow> Inl e
      | Inr (tabla1, tabla2, tabla3) \<Rightarrow>
          bind (pagina fmt tabla1 tabla2 tabla3 pick_cluster pick_maquina) (\<lambda>d. Inr (Some d)))"

section \<open>Notions used in statements and proofs\<close>

text \<open>A table has the column when exactly one of its labels is the name.\<close>

definition has_column :: "frame \<Rightarrow> string \<Rightarrow> bool" where
  "has_column df name = (length (positions (columns df) name) = 1)"



text \<open>The table with a function applied to the cells of its column number \<open>i\<close>.\<close>

definition map_column :: "nat \<Rightarrow> (cell \<Rightarrow> cell) \<Rightarrow> frame \<Rightarrow> frame" where
  "map_column i g df = df\<lparr>rows := map (\<lambda>r. r[i := g (r ! i)]) (rows df)\<rparr>"

section \<open>Example tables\<close>

text \<open>
  Three small files, and the tables \<^verbatim>\<open>load_data\<close> makes of them. Table 1 has a row
  without a machine; Table 2 has a time index and an interval that are no numbers,
  and a machine \<^verbatim>\<open>D\<close> that Table 1 does not know.
\<close>

definition ej_fmt :: "real \<Rightarrow> string" where
  "ej_fmt x = ''0''"

definition ej_parse :: "string \<Rightarrow> real option" where
  "ej_parse s = (if s = ''7.5'' then Some (15 / 2) else None)"

definition ej_file1 :: frame where
  "ej_file1 =
     \<lparr>columns = [''ID_Falla'', ''Machine Name'', ''Shift'', ''EQ Type'', ''Cluster''],
      rows = [[Some (Number 1), Some (Text ''a''), Some (Text ''M''), Some (Text ''P''), Some (Text ''X'')],
              [Some (Number 2), Some (Text ''b''), Some (Text ''T''), Some (Text ''P''), Some (Text ''X'')],
              [Some (Number 3), Some (Text ''c''), Some (Text ''T''), Some (Text ''Q''), Some (Text ''Y'')],
              [Some (Number 4), None, Some (Text ''M''), Some (Text ''Q''), Some (Text ''Y'')]]\<rparr>"

definition ej_file2 :: frame where
  "ej_file2 =
     \<lparr>columns = [''Maquina'', ''Indice_Tiempo'', ''Tiempo_Entre_Fallas''],
      rows = [[Some (Text ''a''), Some (Number 1), Some (Number 4)],
              [Some (Text ''a''), Some (Text ''dos''), Some (Text ''7.5'')],
              [Some (Text ''c''), Some (Number 1), Some (Text ''n/d'')],
              [Some (Text ''d''), Some (Number 1), Some (Number 8)]]\<rparr>"

definition ej_file3 :: frame where
  "ej_file3 =
     \<lparr>columns = [''Maquina'', ''Indice_Tiempo'', ''Forecast''],
      rows = [[Some (Text ''a''), Some (Number 3), Some (Number 5)],
              [Some (Text ''c''), Some (Number 2), Some (Text ''?'')]]\<rparr>"

definition ej_tabla1 :: frame where
  "ej_tabla1 =
     \<lparr>columns = [''ID_Falla'', ''Maquina'', ''Turno'', ''EQ_Type'', ''Cluster''],
      rows = [[Some (Number 1), Some (Text ''A''), Some (Text ''M''), Some (Text ''P''), Some (Text ''X'')],
              [Some (Number 2), Some (Text ''B''), Some (Text ''T''), Some (Text ''P''), Some (Text ''X'')],
              [Some (Number 3), Some (Text ''C''), Some (Text ''T''), Some (Text ''Q''), Some (Text ''Y'')],
              [Some (Number 4), Some (Text ''NAN''), Some (Text ''M''), Some (Text ''Q''), Some (Text ''Y'')]]\<rparr>"

definition ej_tabla2 :: frame where
  "ej_tabla2 =
     \<lparr>columns = [''Maquina'', ''Indice_Tiempo'', ''Tiempo_Entre_Fallas''],
      rows = [[Some (Text ''A''), Some (Number 1), Some (Number 4)],
              [Some (Text ''A''), None, Some (Number (15 / 2))],
              [Some (Text ''C''), Some (Number 1), None],
              [Some (Text ''D''), Some (Number 1), Some (Number 8)]]\<rparr>"

definition ej_tabla3 :: frame where
  "ej_tabla3 =
     \<lparr>columns = [''Maquina'', ''Indice_Tiempo'', ''Forecast''],
      rows = [[Some (Text ''A''), Some (Number 3), Some (Number 5)],
              [Some (Text ''C''), Some (Number 2), None]]\<rparr>"





text \<open>A Table 1 in which two of the three failures of machine \<^verbatim>\<open>a\<close> have no cluster.\<close>

definition ej_file1_huecos :: frame where
  "ej_file1_huecos =
     \<lparr>columns = [''ID_Falla'', ''Machine Name'', ''Shift'', ''EQ Type'', ''Cluster''],
      rows = [[Some (Number 1), Some (Text ''a''), Some (Text ''M''), Some (Text ''P''), None],
              [Some (Number 2), Some (Text ''a''), Some (Text ''T''), Some (Text ''P''), None],
              [Some (Number 3), Some (Text ''a''), Some (Text ''T''), Some (Text ''Q''), Some (Text ''X'')],
              [Some (Number 4), Some (Text ''b''), Some (Text ''M''), Some (Text ''Q''), Some (Text ''Y'')]]\<rparr>"

definition ej_tabla1_huecos :: frame where
  "ej_tabla1_huecos =
     \<lparr>columns = [''ID_Falla'', ''Maquina'', ''Turno'', ''EQ_Type'', ''Cluster''],
      rows = [[Some (Number 1), Some (Text ''A''), Some (Text ''M''), Some (Text ''P''), None],
              [Some (Number 2), Some (Text ''A''), Some (Text ''T''), Some (Text ''P''), None],
              [Some (Number 3), Some (Text ''A''), Some (Text ''T''), Some (Text ''Q''), Some (Text ''X'')],
              [Some (Number 4), Some (Text ''B''), Some (Text ''M''), Some (Text ''Q''), Some (Text ''Y'')]]\<rparr>"

text \<open>Two tables with the same rows in a different order.\<close>

definition ej_orden_ab :: frame where
  "ej_orden_ab = \<lparr>columns = [''Maquina''], rows = [[Some (Text ''A'')], [Some (Text ''B'')]]\<rparr>"

definition ej_orden_ba :: frame where
  "ej_orden_ba = \<lparr>columns = [''Maquina''], rows = [[Some (Text ''B'')], [Some (Text ''A'')]]\<rparr>"

section \<open>Facts about the operations\<close>

lemma bind_Inr_iff: "bind m f = Inr y \<longleftrightarrow> (\<exists>x. m = Inr x \<and> f x = Inr y)"
  by (cases m) (simp_all add: bind_def)

lemma bind_Inr [simp]: "bind (Inr x) f = f x"
  by (simp add: bind_def)

lemma bind_Inl [simp]: "bind (Inl e) f = Inl e"
  by (simp add: bind_def)

lemma series_Inr_iff:
  "series df name = Inr col \<longleftrightarrow>
     (\<exists>i. positions (columns df) name = [i] \<and> col = map (\<lambda>r. r ! i) (rows df))"
  by (auto simp: series_def split: list.splits)

lemma select_map_comp: "select (map (f \<circ> g) xs) xs = filter (\<lambda>x. f (g x)) xs"
  by (induction xs) (simp_all add: select_def)

lemma set_unique [simp]: "set (unique xs) = set xs"
  by (induction xs rule: unique.induct) auto

lemma distinct_unique [simp]: "distinct (unique xs)"
  by (induction xs rule: unique.induct) auto

lemma set_dropna: "set (dropna cs) = {v. Some v \<in> set cs}"
  by (induction cs) (auto simp: dropna_def split: option.splits)

lemma columns_select_rows [simp]: "columns (select_rows m df) = columns df"
  by (simp add: select_rows_def)

lemma rows_select_rows [simp]: "rows (select_rows m df) = select m (rows df)"
  by (simp add: select_rows_def)

lemma isin_select:
  "select (isin (map g xs) vs) xs = [x \<leftarrow> xs. g x \<in> Some ` set vs]"
  by (induction xs) (auto simp: select_def isin_def split: option.splits)

section \<open>The filters\<close>

lemma por_cluster_Inr:
  "por_cluster fmt cluster_sel tabla1 = Inr t1 \<longleftrightarrow>
     (\<exists>i. positions (columns tabla1) ''Cluster'' = [i] \<and>
          t1 = tabla1\<lparr>rows := [r \<leftarrow> rows tabla1. astype_str fmt (r ! i) = cluster_sel]\<rparr>)"
  by (auto simp: por_cluster_def bind_Inr_iff series_Inr_iff select_rows_def select_map_comp)

lemma maquinas_cluster_Inr:
  "maquinas_cluster t1 = Inr ms \<longleftrightarrow>
     (\<exists>i. positions (columns t1) ''Maquina'' = [i] \<and>
          ms = unique (dropna (map (\<lambda>r. r ! i) (rows t1))))"
  by (auto simp: maquinas_cluster_def bind_Inr_iff series_Inr_iff)

lemma en_maquinas_Inr:
  "en_maquinas ms t = Inr t' \<longleftrightarrow>
     (\<exists>i. positions (columns t) ''Maquina'' = [i] \<and>
          t' = t\<lparr>rows := [r \<leftarrow> rows t. r ! i \<in> Some ` set ms]\<rparr>)"
  by (auto simp: en_maquinas_def bind_Inr_iff series_Inr_iff select_rows_def isin_select)

lemma es_maquina_Inr:
  "es_maquina sel t = Inr t' \<longleftrightarrow>
     (\<exists>i. positions (columns t) ''Maquina'' = [i] \<and>
          t' = t\<lparr>rows := [r \<leftarrow> rows t. r ! i = Some sel]\<rparr>)"
  by (auto simp: es_maquina_def bind_Inr_iff series_Inr_iff select_rows_def select_map_comp)

text \<open>
  Claim C1. When a cluster other than \<^verbatim>\<open>Todos\<close> is selected and Table 1 has a cluster
  column, Table 1 is restricted to the rows of that cluster, the machines used to restrict
  Tables 2 and 3 are exactly the distinct non-missing machine values of these rows, and the
  filtered Tables 2 and 3 hold exactly the rows whose machine is one of them.
\<close>

theorem cluster_filter_machine_set:
  assumes sel: "cluster_sel \<noteq> ''Todos''" and col: "''Cluster'' \<in> set (columns tabla1)"
    and run: "filtro_cluster fmt cluster_sel tabla1 tabla2 tabla3 = Inr (t1, t2, t3)"
  shows "\<exists>ic i1 i2 i3 ms.
           positions (columns tabla1) ''Cluster'' = [ic] \<and>
           positions (columns tabla1) ''Maquina'' = [i1] \<and>
           positions (columns tabla2) ''Maquina'' = [i2] \<and>
           positions (columns tabla3) ''Maquina'' = [i3] \<and>
           t1 = tabla1\<lparr>rows := [r \<leftarrow> rows tabla1. astype_str fmt (r ! ic) = cluster_sel]\<rparr> \<and>
           maquinas_cluster t1 = Inr ms \<and> distinct ms \<and>
           set ms = {v. \<exists>r \<in> set (rows t1). r ! i1 = Some v} \<and>
           t2 = tabla2\<lparr>rows := [r \<leftarrow> rows tabla2. r ! i2 \<in> Some ` set ms]\<rparr> \<and>
           t3 = tabla3\<lparr>rows := [r \<leftarrow> rows tabla3. r ! i3 \<in> Some ` set ms]\<rparr>"
proof -
  from run sel col obtain u1 ms u2 u3 where
    p1: "por_cluster fmt cluster_sel tabla1 = Inr u1" and
    p2: "maquinas_cluster u1 = Inr ms" and
    p3: "en_maquinas ms tabla2 = Inr u2" and
    p4: "en_maquinas ms tabla3 = Inr u3" and
    eq: "t1 = u1" "t2 = u2" "t3 = u3"
    by (auto simp: filtro_cluster_def bind_Inr_iff)
  from p1 obtain ic where ic: "positions (columns tabla1) ''Cluster'' = [ic]"
    and u1: "u1 = tabla1\<lparr>rows := [r \<leftarrow> rows tabla1. astype_str fmt (r ! ic) = cluster_sel]\<rparr>"
    by (auto simp: por_cluster_Inr)
  from p2 u1 obtain i1 where i1: "positions (columns tabla1) ''Maquina'' = [i1]"
    and ms: "ms = unique (dropna (map (\<lambda>r. r ! i1) (rows u1)))"
    by (auto simp: maquinas_cluster_Inr)
  from p3 obtain i2 where i2: "positions (columns tabla2) ''Maquina'' = [i2]"
    and u2: "u2 = tabla2\<lparr>rows := [r \<leftarrow> rows tabla2. r ! i2 \<in> Some ` set ms]\<rparr>"
    by (auto simp: en_maquinas_Inr)
  from p4 obtain i3 where i3: "positions (columns tabla3) ''Maquina'' = [i3]"
    and u3: "u3 = tabla3\<lparr>rows := [r \<leftarrow> rows tabla3. r ! i3 \<in> Some ` set ms]\<rparr>"
    by (auto simp: en_maquinas_Inr)
  have set_ms: "set ms = {v. \<exists>r \<in> set (rows u1). r ! i1 = Some v}"
    unfolding ms by (force simp: set_dropna)
  have "distinct ms" unfolding ms by simp
  with ic i1 i2 i3 u1 u2 u3 p2 set_ms eq show ?thesis by blast
qed

text \<open>
  The example tables with cluster \<^verbatim>\<open>X\<close>: machines \<^verbatim>\<open>A\<close> and \<^verbatim>\<open>B\<close>.
\<close>

theorem cluster_filter_machine_set_witness:
  "\<exists>ic i1 i2 i3 ms.
     positions (columns ej_tabla1) ''Cluster'' = [ic] \<and>
     positions (columns ej_tabla1) ''Maquina'' = [i1] \<and>
     positions (columns ej_tabla2) ''Maquina'' = [i2] \<and>
     positions (columns ej_tabla3) ''Maquina'' = [i3] \<and>
     ej_tabla1\<lparr>rows := take 2 (rows ej_tabla1)\<rparr> =
       ej_tabla1\<lparr>rows := [r \<leftarrow> rows ej_tabla1. astype_str ej_fmt (r ! ic) = ''X'']\<rparr> \<and>
     maquinas_cluster (ej_tabla1\<lparr>rows := take 2 (rows ej_tabla1)\<rparr>) = Inr ms \<and> distinct ms \<and>
     set ms = {v. \<exists>r \<in> set (rows (ej_tabla1\<lparr>rows := take 2 (rows ej_tabla1)\<rparr>)). r ! i1 = Some v} \<and>
     ej_tabla2\<lparr>rows := take 2 (rows ej_tabla2)\<rparr> =
       ej_tabla2\<lparr>rows := [r \<leftarrow> rows ej_tabla2. r ! i2 \<in> Some ` set ms]\<rparr> \<and>
     ej_tabla3\<lparr>rows := take 1 (rows ej_tabla3)\<rparr> =
       ej_tabla3\<lparr>rows := [r \<leftarrow> rows ej_tabla3. r ! i3 \<in> Some ` set ms]\<rparr>"
proof -
  have sel: "''X'' \<noteq> ''Todos''" by simp
  have col: "''Cluster'' \<in> set (columns ej_tabla1)" by (simp add: ej_tabla1_def)
  have run: "filtro_cluster ej_fmt ''X'' ej_tabla1 ej_tabla2 ej_tabla3 =
      Inr (ej_tabla1\<lparr>rows := take 2 (rows ej_tabla1)\<rparr>,
           ej_tabla2\<lparr>rows := take 2 (rows ej_tabla2)\<rparr>,
           ej_tabla3\<lparr>rows := take 1 (rows ej_tabla3)\<rparr>)"
    by code_simp
  show ?thesis by (rule cluster_filter_machine_set[OF sel col run])
qed

text \<open>
  Claim C2. When a machine other than \<^verbatim>\<open>Todas\<close> is selected, each of the three filtered
  tables is the table left by the cluster filter restricted to the rows whose machine cell
  equals the selection: every row kept has exactly that machine and was already among the
  rows that passed the cluster filter.
\<close>

theorem machine_filter_exact:
  assumes sel: "maquina_sel \<noteq> Text ''Todas''"
    and run: "filtros fmt cluster_sel maquina_sel tabla1 tabla2 tabla3 = Inr (t1, t2, t3)"
  shows "\<exists>c1 c2 c3 i1 i2 i3.
           filtro_cluster fmt cluster_sel tabla1 tabla2 tabla3 = Inr (c1, c2, c3) \<and>
           positions (columns t1) ''Maquina'' = [i1] \<and>
           positions (columns t2) ''Maquina'' = [i2] \<and>
           positions (columns t3) ''Maquina'' = [i3] \<and>
           t1 = c1\<lparr>rows := [r \<leftarrow> rows c1. r ! i1 = Some maquina_sel]\<rparr> \<and>
           t2 = c2\<lparr>rows := [r \<leftarrow> rows c2. r ! i2 = Some maquina_sel]\<rparr> \<and>
           t3 = c3\<lparr>rows := [r \<leftarrow> rows c3. r ! i3 = Some maquina_sel]\<rparr> \<and>
           (\<forall>r \<in> set (rows t1). r ! i1 = Some maquina_sel \<and> r \<in> set (rows c1)) \<and>
           (\<forall>r \<in> set (rows t2). r ! i2 = Some maquina_sel \<and> r \<in> set (rows c2)) \<and>
           (\<forall>r \<in> set (rows t3). r ! i3 = Some maquina_sel \<and> r \<in> set (rows c3))"
proof -
  from run obtain c1 c2 c3 where
    fc: "filtro_cluster fmt cluster_sel tabla1 tabla2 tabla3 = Inr (c1, c2, c3)" and
    fm: "filtro_maquina maquina_sel c1 c2 c3 = Inr (t1, t2, t3)"
    by (auto simp: filtros_def bind_Inr_iff)
  from fm sel obtain
    e1: "es_maquina maquina_sel c1 = Inr t1" and
    e2: "es_maquina maquina_sel c2 = Inr t2" and
    e3: "es_maquina maquina_sel c3 = Inr t3"
    by (auto simp: filtro_maquina_def bind_Inr_iff)
  from e1 obtain i1 where i1: "positions (columns c1) ''Maquina'' = [i1]"
    and t1: "t1 = c1\<lparr>rows := [r \<leftarrow> rows c1. r ! i1 = Some maquina_sel]\<rparr>"
    by (auto simp: es_maquina_Inr)
  from e2 obtain i2 where i2: "positions (columns c2) ''Maquina'' = [i2]"
    and t2: "t2 = c2\<lparr>rows := [r \<leftarrow> rows c2. r ! i2 = Some maquina_sel]\<rparr>"
    by (auto simp: es_maquina_Inr)
  from e3 obtain i3 where i3: "positions (columns c3) ''Maquina'' = [i3]"
    and t3: "t3 = c3\<lparr>rows := [r \<leftarrow> rows c3. r ! i3 = Some maquina_sel]\<rparr>"
    by (auto simp: es_maquina_Inr)
  have p1: "positions (columns t1) ''Maquina'' = [i1]" using i1 t1 by simp
  have p2: "positions (columns t2) ''Maquina'' = [i2]" using i2 t2 by simp
  have p3: "positions (columns t3) ''Maquina'' = [i3]" using i3 t3 by simp
  have r1: "\<forall>r \<in> set (rows t1). r ! i1 = Some maquina_sel \<and> r \<in> set (rows c1)"
    unfolding t1 by simp
  have r2: "\<forall>r \<in> set (rows t2). r ! i2 = Some maquina_sel \<and> r \<in> set (rows c2)"
    unfolding t2 by simp
  have r3: "\<forall>r \<in> set (rows t3). r ! i3 = Some maquina_sel \<and> r \<in> set (rows c3)"
    unfolding t3 by simp
  from fc p1 p2 p3 t1 t2 t3 r1 r2 r3 show ?thesis by blast
qed

theorem machine_filter_exact_witness:
  "\<exists>i1. positions (columns (ej_tabla1\<lparr>rows := take 1 (rows ej_tabla1)\<rparr>)) ''Maquina'' = [i1] \<and>
        (\<forall>r \<in> set (rows (ej_tabla1\<lparr>rows := take 1 (rows ej_tabla1)\<rparr>)). r ! i1 = Some (Text ''A''))"
proof -
  have sel: "Text ''A'' \<noteq> Text ''Todas''" by simp
  have run: "filtros ej_fmt ''X'' (Text ''A'') ej_tabla1 ej_tabla2 ej_tabla3 =
      Inr (ej_tabla1\<lparr>rows := take 1 (rows ej_tabla1)\<rparr>,
           ej_tabla2\<lparr>rows := take 2 (rows ej_tabla2)\<rparr>,
           ej_tabla3\<lparr>rows := take 1 (rows ej_tabla3)\<rparr>)"
    by code_simp
  from machine_filter_exact[OF sel run] show ?thesis by blast
qed

section \<open>The time series section\<close>

lemma has_column_iff: "has_column df name \<longleftrightarrow> (\<exists>i. positions (columns df) name = [i])"
  by (cases "positions (columns df) name") (auto simp: has_column_def)


lemma map2_replicate: "map2 f xs (replicate (length xs) v) = map (\<lambda>x. f x v) xs"
  by (induction xs) simp_all

lemma map2_map_map: "map2 f (map g xs) (map h xs) = map (\<lambda>x. f (g x) (h x)) xs"
  by (induction xs) simp_all

lemma select_map_both: "select (map p xs) (map g xs) = map g (filter p xs)"
  by (induction xs) (simp_all add: select_def)

lemma getitems_eq:
  assumes "positions (columns t) a = [i]" "positions (columns t) b = [j]"
  shows "getitems t a b = Inr \<lparr>columns = [a, b], rows = map (\<lambda>r. [r ! i, r ! j]) (rows t)\<rparr>"
  using assms by (simp add: getitems_def series_def map2_map_map)

lemma getitems_Inr:
  assumes "getitems t a b = Inr f"
  shows "\<exists>i j. positions (columns t) a = [i] \<and> positions (columns t) b = [j] \<and>
     f = \<lparr>columns = [a, b], rows = map (\<lambda>r. [r ! i, r ! j]) (rows t)\<rparr>"
  using assms by (auto simp: getitems_def bind_Inr_iff series_Inr_iff map2_map_map)

lemma serie_eq:
  assumes a: "positions (columns t) COL_IDX_TIEMPO = [i]" and b: "positions (columns t) valor = [j]"
    and ne: "valor \<noteq> COL_IDX_TIEMPO" "valor \<noteq> ''Tipo''"
  shows "serie valor tipo t =
     Inr \<lparr>columns = [COL_IDX_TIEMPO, ''Valor'', ''Tipo''],
          rows = map (\<lambda>r. [r ! i, r ! j, Some (Text tipo)]) [r \<leftarrow> rows t. r ! j \<noteq> None]\<rparr>"
proof -
  let ?s = "\<lparr>columns = [COL_IDX_TIEMPO, valor], rows = map (\<lambda>r. [r ! i, r ! j]) (rows t)\<rparr>"
  have g: "getitems t COL_IDX_TIEMPO valor = Inr ?s"
    using a b by (rule getitems_eq)
  let ?s' = "\<lparr>columns = [COL_IDX_TIEMPO, valor], rows = map (\<lambda>r. [r ! i, r ! j]) [r \<leftarrow> rows t. r ! j \<noteq> None]\<rparr>"
  have d: "dropna_subset valor ?s = Inr ?s'"
    using ne by (simp add: dropna_subset_def series_def select_rows_def select_map_both o_def)
  have tipo: "COL_IDX_TIEMPO \<noteq> ''Tipo''" by (simp add: COL_IDX_TIEMPO_def)
  have "rename [(valor, ''Valor'')]
          (setitem ?s' ''Tipo'' (replicate (length (rows ?s')) (Some (Text tipo)))) =
        \<lparr>columns = [COL_IDX_TIEMPO, ''Valor'', ''Tipo''],
          rows = map (\<lambda>r. [r ! i, r ! j, Some (Text tipo)]) [r \<leftarrow> rows t. r ! j \<noteq> None]\<rparr>"
    using ne tipo by (simp add: setitem_def rename_def map2_replicate[where xs="map f xs" for f xs, simplified] o_def)
  then show ?thesis
    unfolding serie_def using g d by simp
qed

lemma set_positions: "set (positions cs name) = {i. i < length cs \<and> cs ! i = name}"
proof (induction cs)
  case Nil
  then show ?case by simp
next
  case (Cons c cs)
  show ?case
  proof (rule set_eqI)
    fix i
    show "i \<in> set (positions (c # cs) name) \<longleftrightarrow> i \<in> {i. i < length (c # cs) \<and> (c # cs) ! i = name}"
      using Cons by (cases i) auto
  qed
qed

lemma positions_Nil_iff: "positions cs name = [] \<longleftrightarrow> name \<notin> set cs"
proof -
  have "positions cs name = [] \<longleftrightarrow> set (positions cs name) = {}" by simp
  also have "\<dots> \<longleftrightarrow> name \<notin> set cs"
    unfolding set_positions by (auto simp: in_set_conv_nth)
  finally show ?thesis .
qed

lemma positions_single: "positions cs name = [i] \<Longrightarrow> i < length cs \<and> cs ! i = name"
  using set_positions[of cs name] by auto

lemma series_Inr_member: "series df name = Inr c \<Longrightarrow> name \<in> set (columns df)"
  using positions_Nil_iff[of "columns df" name] by (auto simp: series_Inr_iff)

lemma series_length: "series df name = Inr c \<Longrightarrow> length c = length (rows df)"
  by (auto simp: series_Inr_iff)

text \<open>
  Claim C8. The time series section shows the instruction to pick a machine exactly when
  a cluster other than \<^verbatim>\<open>Todos\<close> is selected together with \<^verbatim>\<open>Todas\<close>; in every other
  state it shows the warning for an empty Table 2 and the figure otherwise.
\<close>

theorem chart_suppressed_iff:
  "(seccion_serie cluster_sel maquina_sel t2 t3 = Inr Info \<longleftrightarrow>
      cluster_sel \<noteq> ''Todos'' \<and> maquina_sel = Text ''Todas'') \<and>
   (\<not> (cluster_sel \<noteq> ''Todos'' \<and> maquina_sel = Text ''Todas'') \<longrightarrow>
      (empty t2 \<longrightarrow> seccion_serie cluster_sel maquina_sel t2 t3 = Inr Warning) \<and>
      (\<not> empty t2 \<and> has_column t2 COL_IDX_TIEMPO \<and> has_column t2 COL_TIEMPO_ENTRE_FALLAS \<and>
       (empty t3 \<or> has_column t3 COL_IDX_TIEMPO \<and> has_column t3 COL_FORECAST) \<longrightarrow>
         (\<exists>f. seccion_serie cluster_sel maquina_sel t2 t3 = Inr (Figura f))))"
proof (intro conjI impI)
  show "seccion_serie cluster_sel maquina_sel t2 t3 = Inr Info \<longleftrightarrow>
      cluster_sel \<noteq> ''Todos'' \<and> maquina_sel = Text ''Todas''"
    by (auto simp: seccion_serie_def bind_Inr_iff split: if_splits)
next
  assume "\<not> (cluster_sel \<noteq> ''Todos'' \<and> maquina_sel = Text ''Todas'')" "empty t2"
  then show "seccion_serie cluster_sel maquina_sel t2 t3 = Inr Warning"
    by (auto simp: seccion_serie_def)
next
  assume n: "\<not> (cluster_sel \<noteq> ''Todos'' \<and> maquina_sel = Text ''Todas'')"
    and h: "\<not> empty t2 \<and> has_column t2 COL_IDX_TIEMPO \<and> has_column t2 COL_TIEMPO_ENTRE_FALLAS \<and>
       (empty t3 \<or> has_column t3 COL_IDX_TIEMPO \<and> has_column t3 COL_FORECAST)"
  from h obtain i j where ij: "positions (columns t2) COL_IDX_TIEMPO = [i]"
      "positions (columns t2) COL_TIEMPO_ENTRE_FALLAS = [j]"
    by (auto simp: has_column_iff)
  have ne: "COL_TIEMPO_ENTRE_FALLAS \<noteq> COL_IDX_TIEMPO" "COL_TIEMPO_ENTRE_FALLAS \<noteq> ''Tipo''"
      "COL_FORECAST \<noteq> COL_IDX_TIEMPO" "COL_FORECAST \<noteq> ''Tipo''"
    by (simp_all add: COL_TIEMPO_ENTRE_FALLAS_def COL_IDX_TIEMPO_def COL_FORECAST_def)
  note real = serie_eq[OF ij ne(1,2)]
  show "\<exists>f. seccion_serie cluster_sel maquina_sel t2 t3 = Inr (Figura f)"
  proof (cases "empty t3")
    case True
    with n h show ?thesis by (auto simp: seccion_serie_def real)
  next
    case False
    with h obtain k l where kl: "positions (columns t3) COL_IDX_TIEMPO = [k]"
      "positions (columns t3) COL_FORECAST = [l]"
      by (auto simp: has_column_iff)
    note fore = serie_eq[OF kl ne(3,4)]
    from n h False show ?thesis by (auto simp: seccion_serie_def real fore)
  qed
qed

theorem chart_suppressed_iff_witness:
  "seccion_serie ''X'' (Text ''Todas'') ej_tabla2 ej_tabla3 = Inr Info \<and>
   (\<exists>f. seccion_serie ''Todos'' (Text ''Todas'') ej_tabla2 ej_tabla3 = Inr (Figura f))"
proof -
  have a: "''X'' \<noteq> ''Todos''" by simp
  have b: "\<not> empty ej_tabla2" by (simp add: empty_def ej_tabla2_def)
  have c: "has_column ej_tabla2 COL_IDX_TIEMPO" "has_column ej_tabla2 COL_TIEMPO_ENTRE_FALLAS"
    "has_column ej_tabla3 COL_IDX_TIEMPO" "has_column ej_tabla3 COL_FORECAST"
    by (simp_all add: has_column_def ej_tabla2_def ej_tabla3_def COL_IDX_TIEMPO_def
        COL_TIEMPO_ENTRE_FALLAS_def COL_FORECAST_def)
  from chart_suppressed_iff[of "''X''" "Text ''Todas''" ej_tabla2 ej_tabla3] a
  have 1: "seccion_serie ''X'' (Text ''Todas'') ej_tabla2 ej_tabla3 = Inr Info" by blast
  from chart_suppressed_iff[of "''Todos''" "Text ''Todas''" ej_tabla2 ej_tabla3] b c
  have 2: "\<exists>f. seccion_serie ''Todos'' (Text ''Todas'') ej_tabla2 ej_tabla3 = Inr (Figura f)"
    by blast
  from 1 2 show ?thesis by blast
qed

section \<open>The mean interval\<close>

lemma texts_Nil_iff: "texts c = [] \<longleftrightarrow> (\<forall>s. Some (Text s) \<notin> set c)"
proof (induction c)
  case Nil
  then show ?case by (simp add: texts_def)
next
  case (Cons a c)
  show ?case
  proof (cases a)
    case None
    with Cons show ?thesis by (simp add: texts_def)
  next
    case (Some v)
    with Cons show ?thesis by (cases v) (auto simp: texts_def)
  qed
qed

lemma numbers_Nil_iff:
  assumes "texts c = []"
  shows "numbers c = [] \<longleftrightarrow> (\<forall>x \<in> set c. x = None)"
  using assms
proof (induction c)
  case Nil
  then show ?case by (simp add: numbers_def)
next
  case (Cons a c)
  show ?case
  proof (cases a)
    case None
    with Cons show ?thesis by (simp add: numbers_def texts_def)
  next
    case (Some v)
    with Cons show ?thesis by (cases v) (auto simp: numbers_def texts_def)
  qed
qed

lemma dropna_numbers:
  assumes "texts c = []"
  shows "dropna c = map Number (numbers c)"
  using assms
proof (induction c)
  case Nil
  then show ?case by (simp add: dropna_def numbers_def)
next
  case (Cons a c)
  show ?case
  proof (cases a)
    case None
    with Cons show ?thesis by (simp add: dropna_def numbers_def texts_def)
  next
    case (Some v)
    with Cons show ?thesis by (cases v) (auto simp: dropna_def numbers_def texts_def)
  qed
qed

text \<open>
  Claim C7. On a numeric interval column, the mean indicator reads \<^verbatim>\<open>Sin datos\<close> when the
  filtered Table 2 is empty or every interval is missing, and otherwise the arithmetic
  mean of the intervals that are not missing.
\<close>

theorem mean_interval_metric:
  assumes col: "series t2 COL_TIEMPO_ENTRE_FALLAS = Inr c"
    and num: "texts c = []"
  shows "\<exists>p. prom_tiempo t2 = Inr p \<and>
          dropna c = map Number (numbers c) \<and>
          metric_tiempo p =
            (if empty t2 \<or> (\<forall>x \<in> set c. x = None) then Texto ''Sin datos''
             else Decimales (sum_list (numbers c) / real (length (numbers c))))"
proof (cases "empty t2")
  case True
  then have "prom_tiempo t2 = Inr None" by (simp add: prom_tiempo_def)
  with True dropna_numbers[OF num] show ?thesis by (simp add: metric_tiempo_def)
next
  case False
  have m: "mean c = Inr (if numbers c = [] then None
                         else Some (sum_list (numbers c) / real (length (numbers c))))"
    using num by (simp add: mean_def Let_def)
  have p: "prom_tiempo t2 = Inr (Some (if numbers c = [] then None
                         else Some (sum_list (numbers c) / real (length (numbers c)))))"
    using False col m by (simp add: prom_tiempo_def)
  show ?thesis
    using False p dropna_numbers[OF num] numbers_Nil_iff[OF num]
    by (auto simp: metric_tiempo_def)
qed

theorem mean_interval_metric_witness:
  "\<exists>p. prom_tiempo ej_tabla2 = Inr p \<and> metric_tiempo p = Decimales (13 / 2)"
proof -
  let ?c = "[Some (Number 4), Some (Number (15 / 2)), None, Some (Number 8)]"
  have col: "series ej_tabla2 COL_TIEMPO_ENTRE_FALLAS = Inr ?c"
    by (simp add: series_def ej_tabla2_def COL_TIEMPO_ENTRE_FALLAS_def)
  have num: "texts ?c = []" by (simp add: texts_def)
  have ne: "\<not> empty ej_tabla2" by (simp add: empty_def ej_tabla2_def)
  have val: "sum_list (numbers ?c) / real (length (numbers ?c)) = 13 / 2"
    by (simp add: numbers_def)
  from mean_interval_metric[OF col num] ne val show ?thesis by auto
qed

section \<open>The modal cluster\<close>

lemma ex_most_frequent:
  assumes "xs \<noteq> []"
  shows "\<exists>v \<in> set xs. \<forall>w. count_list xs w \<le> count_list xs v"
proof -
  let ?C = "count_list xs ` set xs"
  have fin: "finite ?C" and ne: "?C \<noteq> {}" using assms by auto
  from Max_in[OF fin ne] obtain v where v: "v \<in> set xs" "count_list xs v = Max ?C" by auto
  have "count_list xs w \<le> count_list xs v" for w
  proof (cases "w \<in> set xs")
    case True
    then show ?thesis using Max_ge[OF fin, of "count_list xs w"] v by simp
  next
    case False
    then show ?thesis by (simp add: count_notin)
  qed
  with v show ?thesis by blast
qed

lemma mode_set:
  "set (mode xs) = {v \<in> set xs. \<forall>w. count_list xs w \<le> count_list xs v}"
proof -
  have "(\<forall>w \<in> set xs. count_list xs w \<le> count_list xs v) \<longleftrightarrow>
        (\<forall>w. count_list xs w \<le> count_list xs v)" for v
    by (metis count_notin le0)
  then show ?thesis by (auto simp: mode_def list_all_iff)
qed

lemma mode_first:
  assumes "xs \<noteq> []"
  shows "\<exists>m ms. mode xs = m # ms \<and> m \<in> set xs \<and>
           (\<forall>w. count_list xs w \<le> count_list xs m) \<and>
           (\<forall>w \<in> set xs. count_list xs w = count_list xs m \<longrightarrow> m \<le> w)"
proof -
  from ex_most_frequent[OF assms] have "set (mode xs) \<noteq> {}"
    unfolding mode_set by blast
  then obtain m ms where mm: "mode xs = m # ms" by (cases "mode xs") auto
  then have "m \<in> set (mode xs)" by simp
  then have m: "m \<in> set xs" "\<forall>w. count_list xs w \<le> count_list xs m"
    unfolding mode_set by auto
  have srt: "sorted (mode xs)" by (simp add: mode_def)
  have "m \<le> w" if "w \<in> set xs" "count_list xs w = count_list xs m" for w
  proof -
    from that m have "w \<in> set (mode xs)" unfolding mode_set by simp
    with srt mm show ?thesis by auto
  qed
  with mm m show ?thesis by blast
qed

text \<open>
  The cases of the cluster indicator. In the last case the values counted are the texts
  of the cluster cells as \<^verbatim>\<open>astype(str)\<close> gives them, so a missing cell counts as the text
  \<^verbatim>\<open>nan\<close>; \<^verbatim>\<open>mode()\<close> is then never empty on a table with rows.
\<close>

lemma cluster_cat_cases:
  "(cluster_sel \<noteq> ''Todos'' \<longrightarrow>
      cluster_cat fmt cluster_sel maquina_sel t1 = Inr cluster_sel) \<and>
   (cluster_sel = ''Todos'' \<and> maquina_sel = Text ''Todas'' \<longrightarrow>
      cluster_cat fmt cluster_sel maquina_sel t1 = Inr ''Varios'') \<and>
   (cluster_sel = ''Todos'' \<and> maquina_sel \<noteq> Text ''Todas'' \<and>
    (''Cluster'' \<notin> set (columns t1) \<or> empty t1) \<longrightarrow>
      cluster_cat fmt cluster_sel maquina_sel t1 = Inr ''Sin datos'') \<and>
   (cluster_sel = ''Todos'' \<and> maquina_sel \<noteq> Text ''Todas'' \<and> \<not> empty t1 \<and>
    series t1 ''Cluster'' = Inr c \<longrightarrow>
      (\<exists>m. cluster_cat fmt cluster_sel maquina_sel t1 = Inr m \<and>
           m \<in> set (map (astype_str fmt) c) \<and>
           (\<forall>w. count_list (map (astype_str fmt) c) w \<le> count_list (map (astype_str fmt) c) m) \<and>
           (\<forall>w \<in> set (map (astype_str fmt) c).
              count_list (map (astype_str fmt) c) w = count_list (map (astype_str fmt) c) m
              \<longrightarrow> m \<le> w)))"
proof (intro conjI impI)
  assume h: "cluster_sel = ''Todos'' \<and> maquina_sel \<noteq> Text ''Todas'' \<and> \<not> empty t1 \<and>
    series t1 ''Cluster'' = Inr c"
  let ?cs = "map (astype_str fmt) c"
  from h have "length c = length (rows t1)" by (auto dest: series_length)
  with h have "?cs \<noteq> []" by (auto simp: empty_def)
  from mode_first[OF this] obtain m ms where
    mm: "mode ?cs = m # ms" and m: "m \<in> set ?cs" "\<forall>w. count_list ?cs w \<le> count_list ?cs m"
      "\<forall>w \<in> set ?cs. count_list ?cs w = count_list ?cs m \<longrightarrow> m \<le> w"
    by blast
  from h have "''Cluster'' \<in> set (columns t1)" by (auto dest: series_Inr_member)
  with h mm have "cluster_cat fmt cluster_sel maquina_sel t1 = Inr m"
    by (simp add: cluster_cat_def)
  with m show "\<exists>m. cluster_cat fmt cluster_sel maquina_sel t1 = Inr m \<and>
           m \<in> set ?cs \<and> (\<forall>w. count_list ?cs w \<le> count_list ?cs m) \<and>
           (\<forall>w \<in> set ?cs. count_list ?cs w = count_list ?cs m \<longrightarrow> m \<le> w)"
    by blast
qed (auto simp: cluster_cat_def)

text \<open>
  Claim C5 at a Table 1 in which machine \<^verbatim>\<open>A\<close> has three failures, two without a cluster
  and one in cluster \<^verbatim>\<open>X\<close>: with \<^verbatim>\<open>Todos\<close> and machine \<^verbatim>\<open>A\<close> selected the indicator reads
  \<^verbatim>\<open>nan\<close>, which is no cluster value (the cluster selector offers \<^verbatim>\<open>X\<close> and \<^verbatim>\<open>Y\<close>), where the
  most frequent cluster of these rows is \<^verbatim>\<open>X\<close>.
\<close>

theorem modal_cluster_reports_nan:
  "load_data ej_fmt ej_parse (Some ej_file1_huecos) (Some ej_file2) (Some ej_file3)
     = Inr (ej_tabla1_huecos, ej_tabla2, ej_tabla3) \<and>
   clusters_disp ej_fmt ej_tabla1_huecos = Inr [''X'', ''Y''] \<and>
   filtros ej_fmt ''Todos'' (Text ''A'') ej_tabla1_huecos ej_tabla2 ej_tabla3
     = Inr (ej_tabla1_huecos\<lparr>rows := take 3 (rows ej_tabla1_huecos)\<rparr>,
            ej_tabla2\<lparr>rows := take 2 (rows ej_tabla2)\<rparr>,
            ej_tabla3\<lparr>rows := take 1 (rows ej_tabla3)\<rparr>) \<and>
   cluster_cat ej_fmt ''Todos'' (Text ''A'')
       (ej_tabla1_huecos\<lparr>rows := take 3 (rows ej_tabla1_huecos)\<rparr>)
     = Inr ''nan'' \<and>
   map_sum id (map_option kpi_cluster)
     (main ej_fmt ej_parse (Some ej_file1_huecos) (Some ej_file2) (Some ej_file3)
        ''Todos'' (Text ''A''))
     = Inr (Some ''nan'')"
  by code_simp

section \<open>The machine with most failures\<close>

lemma first_max_in: "first_max b ps \<in> set (b # ps)"
  by (induction ps arbitrary: b) (auto split: if_splits)

lemma first_max_ge_all: "\<forall>q \<in> set (b # ps). snd q \<le> snd (first_max b ps)"
proof (induction ps arbitrary: b)
  case Nil
  then show ?case by simp
next
  case (Cons p ps)
  let ?b = "if snd b < snd p then p else b"
  have ih: "\<forall>q \<in> set (?b # ps). snd q \<le> snd (first_max ?b ps)" by (rule Cons.IH)
  then have top: "snd ?b \<le> snd (first_max ?b ps)" by simp
  have "snd b \<le> snd ?b" "snd p \<le> snd ?b" by simp_all
  with top have "snd b \<le> snd (first_max ?b ps)" "snd p \<le> snd (first_max ?b ps)"
    by (blast intro: order_trans)+
  with ih show ?case by simp
qed

lemma first_max_ge: "q \<in> set (b # ps) \<Longrightarrow> snd q \<le> snd (first_max b ps)"
  using first_max_ge_all by blast

lemma fold_max_ge: "(a::nat) \<le> fold max xs a \<and> (\<forall>x \<in> set xs. x \<le> fold max xs a)"
proof (induction xs arbitrary: a)
  case Nil
  then show ?case by simp
next
  case (Cons x xs)
  from Cons[of "max x a"] show ?case by auto
qed

lemma fold_max_in: "fold max xs (a::nat) \<in> insert a (set xs)"
proof (induction xs arbitrary: a)
  case Nil
  then show ?case by simp
next
  case (Cons x xs)
  from Cons[of "max x a"] show ?case by (auto simp: max_def split: if_splits)
qed

lemma max_count_first_max: "max_count (p # ps) = snd (first_max p ps)"
proof (rule antisym)
  have "max_count (p # ps) \<in> insert 0 (snd ` set (p # ps))"
    unfolding max_count_def using fold_max_in[of "map snd (p # ps)" 0] by simp
  then have "max_count (p # ps) = 0 \<or> (\<exists>q \<in> set (p # ps). max_count (p # ps) = snd q)"
    by blast
  then show "max_count (p # ps) \<le> snd (first_max p ps)"
    using first_max_ge_all[of p ps] by auto
next
  have "first_max p ps \<in> set (p # ps)" by (rule first_max_in)
  then have "snd (first_max p ps) \<in> set (map snd (p # ps))" by (metis image_eqI list.set_map)
  then show "snd (first_max p ps) \<le> max_count (p # ps)"
    unfolding max_count_def using fold_max_ge[of 0 "map snd (p # ps)"] by blast
qed

lemma set_value_counts: "set (value_counts xs) = (\<lambda>v. (v, count_list xs v)) ` set xs"
  by (simp add: value_counts_def)

lemma value_counts_Nil_iff: "value_counts xs = [] \<longleftrightarrow> xs = []"
  using set_value_counts[of xs] by (metis image_is_empty set_empty)

lemma top_value:
  assumes "xs \<noteq> []"
  shows "\<exists>m. idxmax (value_counts xs) = Inr m \<and> m \<in> set xs \<and>
             max_count (value_counts xs) = count_list xs m \<and>
             (\<forall>v. count_list xs v \<le> count_list xs m)"
proof -
  from assms obtain p ps where pp: "value_counts xs = p # ps"
    by (cases "value_counts xs") (auto simp: value_counts_Nil_iff)
  let ?w = "first_max p ps"
  have win: "?w \<in> set (value_counts xs)" unfolding pp by (rule first_max_in)
  then have w: "fst ?w \<in> set xs" "snd ?w = count_list xs (fst ?w)"
    unfolding set_value_counts by auto
  have ge: "count_list xs v \<le> count_list xs (fst ?w)" for v
  proof (cases "v \<in> set xs")
    case True
    then have "(v, count_list xs v) \<in> set (p # ps)"
      unfolding pp[symmetric] set_value_counts by blast
    from first_max_ge[OF this] w show ?thesis by simp
  next
    case False
    then show ?thesis by (simp add: count_notin)
  qed
  have "idxmax (value_counts xs) = Inr (fst ?w)" by (simp add: pp idxmax_def)
  moreover have "max_count (value_counts xs) = count_list xs (fst ?w)"
    unfolding pp max_count_first_max using w by simp
  ultimately show ?thesis using w ge by blast
qed

lemma texto_maq_top_cases:
  assumes "series t ''Maquina'' = Inr c"
  shows "(serie_validos fmt c = [] \<longrightarrow> texto_maq_top fmt t = Inr (Texto ''Sin datos'')) \<and>
         (serie_validos fmt c \<noteq> [] \<longrightarrow>
            (\<exists>m. texto_maq_top fmt t = Inr (Maquina_cuenta m (count_list (serie_validos fmt c) m)) \<and>
                 m \<in> set (serie_validos fmt c) \<and>
                 (\<forall>v. count_list (serie_validos fmt c) v \<le> count_list (serie_validos fmt c) m)))"
proof (intro conjI impI)
  assume e: "serie_validos fmt c = []"
  then have "value_counts (serie_validos fmt c) = []" by (simp add: value_counts_Nil_iff)
  with assms show "texto_maq_top fmt t = Inr (Texto ''Sin datos'')"
    by (simp add: texto_maq_top_def)
next
  assume ne: "serie_validos fmt c \<noteq> []"
  from top_value[OF ne] obtain m where m:
    "idxmax (value_counts (serie_validos fmt c)) = Inr m" "m \<in> set (serie_validos fmt c)"
    "max_count (value_counts (serie_validos fmt c)) = count_list (serie_validos fmt c) m"
    "\<forall>v. count_list (serie_validos fmt c) v \<le> count_list (serie_validos fmt c) m"
    by blast
  have "c \<noteq> []" using ne by (auto simp: serie_validos_def dropna_def)
  with assms have "\<not> empty t"
    using series_length[OF assms] series_Inr_member[OF assms] by (auto simp: empty_def)
  with assms ne m have "texto_maq_top fmt t = Inr (Maquina_cuenta m (count_list (serie_validos fmt c) m))"
    by (simp add: texto_maq_top_def value_counts_Nil_iff)
  with m show "\<exists>m. texto_maq_top fmt t = Inr (Maquina_cuenta m (count_list (serie_validos fmt c) m)) \<and>
                 m \<in> set (serie_validos fmt c) \<and>
                 (\<forall>v. count_list (serie_validos fmt c) v \<le> count_list (serie_validos fmt c) m)"
    by blast
qed

lemma dropna_filter: "dropna c = map the (filter (\<lambda>x. x \<noteq> None) c)"
  by (induction c) (auto simp: dropna_def)

lemma mset_serie_validos:
  assumes "mset c' = mset c"
  shows "mset (serie_validos fmt c') = mset (serie_validos fmt c)"
proof -
  have "mset (filter (\<lambda>x. x \<noteq> None) c') = mset (filter (\<lambda>x. x \<noteq> None) c)"
    using assms by simp
  then have "mset (dropna c') = mset (dropna c)"
    unfolding dropna_filter by (metis mset_map)
  then have "mset (map (\<lambda>v. strip (str_val fmt v)) (dropna c')) =
             mset (map (\<lambda>v. strip (str_val fmt v)) (dropna c))"
    by (metis mset_map)
  then show ?thesis
    unfolding serie_validos_def Let_def by (metis mset_filter)
qed

lemma count_list_mset: "mset xs = mset ys \<Longrightarrow> count_list xs v = count_list ys v"
  by (metis count_mset)

text \<open>
  Claim C6, as amended. For two Tables 1 with the same rows in a different order, the
  machine with most failures is reported with the same count, and it is the same machine
  whenever no other machine reaches that count.
\<close>

theorem top_machine_reordered:
  assumes cols: "columns b = columns a" and perm: "mset (rows b) = mset (rows a)"
    and ca: "series a ''Maquina'' = Inr ca"
  shows "\<exists>cb. series b ''Maquina'' = Inr cb \<and>
           (texto_maq_top fmt a = Inr (Texto ''Sin datos'') \<and>
            texto_maq_top fmt b = Inr (Texto ''Sin datos'') \<or>
            (\<exists>m m' n. texto_maq_top fmt a = Inr (Maquina_cuenta m n) \<and>
                       texto_maq_top fmt b = Inr (Maquina_cuenta m' n) \<and>
                       0 < n \<and>
                       count_list (serie_validos fmt ca) m = n \<and>
                       count_list (serie_validos fmt ca) m' = n \<and>
                       ((\<forall>s. s \<noteq> m \<longrightarrow> count_list (serie_validos fmt ca) s < n) \<longrightarrow> m' = m)))"
proof -
  from ca obtain i where i: "positions (columns a) ''Maquina'' = [i]"
    and ca_eq: "ca = map (\<lambda>r. r ! i) (rows a)"
    by (auto simp: series_Inr_iff)
  let ?cb = "map (\<lambda>r. r ! i) (rows b)"
  have cb: "series b ''Maquina'' = Inr ?cb"
    using i cols by (simp add: series_Inr_iff)
  have "mset ?cb = mset ca"
    unfolding ca_eq using perm by (metis mset_map)
  then have ms: "mset (serie_validos fmt ?cb) = mset (serie_validos fmt ca)"
    by (rule mset_serie_validos)
  have cnt: "count_list (serie_validos fmt ?cb) v = count_list (serie_validos fmt ca) v" for v
    using ms by (rule count_list_mset)
  note A = texto_maq_top_cases[OF ca, of fmt]
  note B = texto_maq_top_cases[OF cb, of fmt]
  show ?thesis
  proof (cases "serie_validos fmt ca = []")
    case True
    with ms have "serie_validos fmt ?cb = []" by (metis mset_zero_iff)
    with True A B cb show ?thesis by blast
  next
    case False
    with ms have ne: "serie_validos fmt ?cb \<noteq> []" by (metis mset_zero_iff)
    from A False obtain m where m:
      "texto_maq_top fmt a = Inr (Maquina_cuenta m (count_list (serie_validos fmt ca) m))"
      "m \<in> set (serie_validos fmt ca)"
      "\<forall>v. count_list (serie_validos fmt ca) v \<le> count_list (serie_validos fmt ca) m"
      by blast
    from B ne obtain m' where m':
      "texto_maq_top fmt b = Inr (Maquina_cuenta m' (count_list (serie_validos fmt ?cb) m'))"
      "\<forall>v. count_list (serie_validos fmt ?cb) v \<le> count_list (serie_validos fmt ?cb) m'"
      by blast
    let ?n = "count_list (serie_validos fmt ca) m"
    have "count_list (serie_validos fmt ca) m' \<le> ?n" using m(3) by blast
    moreover have "?n \<le> count_list (serie_validos fmt ca) m'"
      using m'(2) cnt by metis
    ultimately have eq: "count_list (serie_validos fmt ca) m' = ?n" by simp
    have pos: "0 < ?n" using m(2) count_list_0_iff[of "serie_validos fmt ca" m] by simp
    have b_res: "texto_maq_top fmt b = Inr (Maquina_cuenta m' ?n)"
      using m'(1) cnt eq by simp
    have uniq: "(\<forall>s. s \<noteq> m \<longrightarrow> count_list (serie_validos fmt ca) s < ?n) \<longrightarrow> m' = m"
      using eq by (metis less_irrefl)
    from cb m(1) b_res pos eq uniq show ?thesis by blast
  qed
qed

text \<open>
  Claim C6 as stated fails: with two machines of equal frequency the machine reported is
  the one that occurs first, so it changes with the order of the rows.
\<close>

theorem top_machine_order_counterexample:
  "columns ej_orden_ba = columns ej_orden_ab \<and>
   mset (rows ej_orden_ba) = mset (rows ej_orden_ab) \<and>
   texto_maq_top ej_fmt ej_orden_ab = Inr (Maquina_cuenta ''A'' 1) \<and>
   texto_maq_top ej_fmt ej_orden_ba = Inr (Maquina_cuenta ''B'' 1)"
proof -
  have 1: "columns ej_orden_ba = columns ej_orden_ab"
    by (simp add: ej_orden_ab_def ej_orden_ba_def)
  have 2: "mset (rows ej_orden_ba) = mset (rows ej_orden_ab)"
    by (simp add: ej_orden_ab_def ej_orden_ba_def)
  have 3: "texto_maq_top ej_fmt ej_orden_ab = Inr (Maquina_cuenta ''A'' 1)" by code_simp
  have 4: "texto_maq_top ej_fmt ej_orden_ba = Inr (Maquina_cuenta ''B'' 1)" by code_simp
  from 1 2 3 4 show ?thesis by blast
qed

theorem top_machine_reordered_witness:
  "\<exists>m m' n. texto_maq_top ej_fmt ej_orden_ab = Inr (Maquina_cuenta m n) \<and>
             texto_maq_top ej_fmt ej_orden_ba = Inr (Maquina_cuenta m' n) \<and> 0 < n"
proof -
  have 1: "columns ej_orden_ba = columns ej_orden_ab"
    by (simp add: ej_orden_ab_def ej_orden_ba_def)
  have 2: "mset (rows ej_orden_ba) = mset (rows ej_orden_ab)"
    by (simp add: ej_orden_ab_def ej_orden_ba_def)
  have 3: "series ej_orden_ab ''Maquina'' = Inr [Some (Text ''A''), Some (Text ''B'')]"
    by (simp add: series_def ej_orden_ab_def)
  have 4: "texto_maq_top ej_fmt ej_orden_ab \<noteq> Inr (Texto ''Sin datos'')" by code_simp
  from top_machine_reordered[OF 1 2 3, of ej_fmt] 4 show ?thesis by blast
qed

section \<open>Numeric columns\<close>

lemma setitem_map_col:
  assumes "positions (columns df) name = [i]"
  shows "setitem df name (map (\<lambda>r. g (r ! i)) (rows df)) =
         df\<lparr>rows := map (\<lambda>r. r[i := g (r ! i)]) (rows df)\<rparr>"
proof -
  have "map2 (\<lambda>r v. r[i := v]) rs (map (\<lambda>r. g (r ! i)) rs) = map (\<lambda>r. r[i := g (r ! i)]) rs" for rs
    by (induction rs) simp_all
  with assms show ?thesis by (simp add: setitem_def)
qed

lemma coerce_eq:
  assumes "positions (columns df) name = [i]"
  shows "coerce parse name df =
         Inr (df\<lparr>rows := map (\<lambda>r. r[i := to_numeric parse (r ! i)]) (rows df)\<rparr>)"
  using assms setitem_map_col[OF assms, of "to_numeric parse"]
  by (simp add: coerce_def series_def o_def)

lemma upper_maquina_eq:
  assumes "positions (columns df) ''Maquina'' = [i]"
  shows "upper_maquina fmt df =
         Inr (df\<lparr>rows := map (\<lambda>r. r[i := Some (Text (upper (astype_str fmt (r ! i))))]) (rows df)\<rparr>)"
  using assms setitem_map_col[OF assms, of "\<lambda>c. Some (Text (upper (astype_str fmt c)))"]
  by (simp add: upper_maquina_def series_def o_def)

lemma frame_ok_rows: "frame_ok df \<Longrightarrow> r \<in> set (rows df) \<Longrightarrow> length r = length (columns df)"
  by (simp add: frame_ok_def list_all_iff)

lemma series_updated:
  assumes ok: "frame_ok df" and p: "positions (columns df) name = [i]"
  shows "series (df\<lparr>rows := map (\<lambda>r. r[i := g (r ! i)]) (rows df)\<rparr>) name =
         Inr (map (\<lambda>r. g (r ! i)) (rows df))"
proof -
  from p have "i < length (columns df)" by (auto dest: positions_single)
  with ok have "\<forall>r \<in> set (rows df). i < length r" by (auto dest: frame_ok_rows)
  then have "map ((\<lambda>r. r ! i) \<circ> (\<lambda>r. r[i := g (r ! i)])) (rows df) = map (\<lambda>r. g (r ! i)) (rows df)"
    by simp
  with p show ?thesis by (simp add: series_def)
qed

lemma texts_to_numeric: "texts (map (to_numeric parse) c) = []"
proof -
  have "to_numeric parse x \<noteq> Some (Text s)" for x s
    by (auto simp: to_numeric_def split: option.splits val.splits)
  then show ?thesis unfolding texts_Nil_iff by (metis (no_types) imageE list.set_map)
qed

lemma mean_skips_missing: "mean cs = mean [c \<leftarrow> cs. c \<noteq> None]"
proof -
  have "texts cs = texts [c \<leftarrow> cs. c \<noteq> None]"
    by (induction cs) (auto simp: texts_def)
  moreover have "numbers cs = numbers [c \<leftarrow> cs. c \<noteq> None]"
    by (induction cs) (auto simp: numbers_def)
  ultimately show ?thesis by (simp add: mean_def)
qed

lemma serie_Inr:
  assumes run: "serie valor tipo t = Inr f" and ne: "valor \<noteq> COL_IDX_TIEMPO" "valor \<noteq> ''Tipo''"
  shows "\<exists>i j. positions (columns t) COL_IDX_TIEMPO = [i] \<and> positions (columns t) valor = [j] \<and>
     f = \<lparr>columns = [COL_IDX_TIEMPO, ''Valor'', ''Tipo''],
          rows = map (\<lambda>r. [r ! i, r ! j, Some (Text tipo)]) [r \<leftarrow> rows t. r ! j \<noteq> None]\<rparr>"
proof -
  from run obtain s where "getitems t COL_IDX_TIEMPO valor = Inr s"
    by (auto simp: serie_def bind_Inr_iff)
  from getitems_Inr[OF this] obtain i j where
    ij: "positions (columns t) COL_IDX_TIEMPO = [i]" "positions (columns t) valor = [j]"
    by blast
  from serie_eq[OF ij ne, of tipo] run ij show ?thesis by auto
qed

lemma seccion_serie_Figura:
  assumes "seccion_serie cluster_sel maquina_sel t2 t3 = Inr (Figura f)"
  shows "columns f = [COL_IDX_TIEMPO, ''Valor'', ''Tipo''] \<and>
         (\<forall>r \<in> set (rows f). length r = 3 \<and> r ! 1 \<noteq> None)"
proof -
  have ne: "COL_TIEMPO_ENTRE_FALLAS \<noteq> COL_IDX_TIEMPO" "COL_TIEMPO_ENTRE_FALLAS \<noteq> ''Tipo''"
      "COL_FORECAST \<noteq> COL_IDX_TIEMPO" "COL_FORECAST \<noteq> ''Tipo''"
    by (simp_all add: COL_TIEMPO_ENTRE_FALLAS_def COL_IDX_TIEMPO_def COL_FORECAST_def)
  from assms obtain sr where sr: "serie COL_TIEMPO_ENTRE_FALLAS ''Real'' t2 = Inr sr"
    and rest: "(\<not> empty t3 \<and> (\<exists>sf. serie COL_FORECAST (''Predicci'' @ [CHR 0xF3] @ ''n'') t3 = Inr sf \<and>
                  f = concat_rows sr sf)) \<or> (empty t3 \<and> f = sr)"
    by (auto simp: seccion_serie_def bind_Inr_iff split: if_splits)
  from serie_Inr[OF sr ne(1,2)] have a: "columns sr = [COL_IDX_TIEMPO, ''Valor'', ''Tipo'']"
    "\<forall>r \<in> set (rows sr). length r = 3 \<and> r ! 1 \<noteq> None"
    by auto
  from rest show ?thesis
  proof
    assume "empty t3 \<and> f = sr"
    with a show ?thesis by simp
  next
    assume "\<not> empty t3 \<and> (\<exists>sf. serie COL_FORECAST (''Predicci'' @ [CHR 0xF3] @ ''n'') t3 = Inr sf \<and>
                  f = concat_rows sr sf)"
    then obtain sf where sf: "serie COL_FORECAST (''Predicci'' @ [CHR 0xF3] @ ''n'') t3 = Inr sf"
      and f: "f = concat_rows sr sf" by blast
    from serie_Inr[OF sf ne(3,4)] have b: "\<forall>r \<in> set (rows sf). length r = 3 \<and> r ! 1 \<noteq> None"
      by auto
    from a b f show ?thesis by (auto simp: concat_rows_def)
  qed
qed

lemma seccion_box_Figura:
  assumes "seccion_box t2 = Inr (Figura b)"
  shows "\<forall>r \<in> set (rows b). None \<notin> set r"
  using assms by (auto simp: seccion_box_def bind_Inr_iff dropna_rows_def split: if_splits)

text \<open>
  Claim C9, as amended. Text that is no number becomes a missing cell when a numeric
  column is loaded, whatever the cells hold the conversion raises nothing, and no text is
  left in the column; the mean skips missing cells, the rows of the time series all have
  a value, and the rows of the box plot have no missing cell. Each line of the time series
  keeps every row whose value is not missing, whatever its time index.
\<close>

theorem coercion_failure_is_missing:
  "(parse s = None \<longrightarrow> to_numeric parse (Some (Text s)) = None) \<and>
   (frame_ok df \<and> has_column df name \<longrightarrow>
      (\<exists>c df'. series df name = Inr c \<and> coerce parse name df = Inr df' \<and>
               columns df' = columns df \<and>
               series df' name = Inr (map (to_numeric parse) c) \<and>
               texts (map (to_numeric parse) c) = [])) \<and>
   mean cs = mean [c \<leftarrow> cs. c \<noteq> None] \<and>
   (\<forall>f. seccion_serie cluster_sel maquina_sel t2 t3 = Inr (Figura f) \<longrightarrow>
        (\<forall>r \<in> set (rows f). length r = 3 \<and> r ! 1 \<noteq> None)) \<and>
   (\<forall>b. seccion_box t2 = Inr (Figura b) \<longrightarrow> (\<forall>r \<in> set (rows b). None \<notin> set r)) \<and>
   (\<forall>f. valor \<noteq> COL_IDX_TIEMPO \<and> valor \<noteq> ''Tipo'' \<and> serie valor tipo t = Inr f \<longrightarrow>
        (\<exists>i j. positions (columns t) COL_IDX_TIEMPO = [i] \<and> positions (columns t) valor = [j] \<and>
               rows f = map (\<lambda>r. [r ! i, r ! j, Some (Text tipo)]) [r \<leftarrow> rows t. r ! j \<noteq> None]))"
proof (intro conjI impI allI)
  assume "parse s = None"
  then show "to_numeric parse (Some (Text s)) = None" by (simp add: to_numeric_def)
next
  assume h: "frame_ok df \<and> has_column df name"
  then obtain i where i: "positions (columns df) name = [i]" by (auto simp: has_column_iff)
  let ?c = "map (\<lambda>r. r ! i) (rows df)"
  let ?df = "df\<lparr>rows := map (\<lambda>r. r[i := to_numeric parse (r ! i)]) (rows df)\<rparr>"
  have 1: "series df name = Inr ?c" using i by (simp add: series_def)
  have 2: "coerce parse name df = Inr ?df" using i by (rule coerce_eq)
  have 3: "series ?df name = Inr (map (to_numeric parse) ?c)"
    using series_updated[of df name i "to_numeric parse"] h i by (simp add: o_def)
  from 1 2 3 texts_to_numeric[of parse ?c]
  show "\<exists>c df'. series df name = Inr c \<and> coerce parse name df = Inr df' \<and>
               columns df' = columns df \<and>
               series df' name = Inr (map (to_numeric parse) c) \<and>
               texts (map (to_numeric parse) c) = []"
    by (intro exI[of _ ?c] exI[of _ ?df]) simp
next
  show "mean cs = mean [c \<leftarrow> cs. c \<noteq> None]" by (rule mean_skips_missing)
next
  fix f assume "seccion_serie cluster_sel maquina_sel t2 t3 = Inr (Figura f)"
  from seccion_serie_Figura[OF this]
  show "\<forall>r \<in> set (rows f). length r = 3 \<and> r ! 1 \<noteq> None" by simp
next
  fix b assume "seccion_box t2 = Inr (Figura b)"
  then show "\<forall>r \<in> set (rows b). None \<notin> set r" by (rule seccion_box_Figura)
next
  fix f assume h: "valor \<noteq> COL_IDX_TIEMPO \<and> valor \<noteq> ''Tipo'' \<and> serie valor tipo t = Inr f"
  then have "serie valor tipo t = Inr f" "valor \<noteq> COL_IDX_TIEMPO" "valor \<noteq> ''Tipo''" by simp_all
  from serie_Inr[OF this]
  show "\<exists>i j. positions (columns t) COL_IDX_TIEMPO = [i] \<and> positions (columns t) valor = [j] \<and>
               rows f = map (\<lambda>r. [r ! i, r ! j, Some (Text tipo)]) [r \<leftarrow> rows t. r ! j \<noteq> None]"
    by auto
qed

text \<open>
  Claim C9 as stated fails for the time index: a row of Table 2 whose time index is no
  number stays in the time series, with a missing time index.
\<close>

theorem time_index_kept_counterexample:
  "load_data ej_fmt ej_parse (Some ej_file1) (Some ej_file2) (Some ej_file3) =
     Inr (ej_tabla1, ej_tabla2, ej_tabla3) \<and>
   ej_parse ''dos'' = None \<and>
   seccion_serie ''Todos'' (Text ''Todas'') ej_tabla2 ej_tabla3 =
     Inr (Figura \<lparr>columns = [''Indice_Tiempo'', ''Valor'', ''Tipo''],
                  rows = [[Some (Number 1), Some (Number 4), Some (Text ''Real'')],
                          [None, Some (Number (15 / 2)), Some (Text ''Real'')],
                          [Some (Number 1), Some (Number 8), Some (Text ''Real'')],
                          [Some (Number 3), Some (Number 5),
                           Some (Text (''Predicci'' @ [CHR 0xF3] @ ''n''))]]\<rparr>)"
  by code_simp

theorem coercion_failure_is_missing_witness:
  "to_numeric ej_parse (Some (Text ''n/d'')) = None \<and>
   (\<exists>c df'. series ej_file2 COL_TIEMPO_ENTRE_FALLAS = Inr c \<and>
            coerce ej_parse COL_TIEMPO_ENTRE_FALLAS ej_file2 = Inr df' \<and>
            series df' COL_TIEMPO_ENTRE_FALLAS = Inr (map (to_numeric ej_parse) c)) \<and>
   (\<exists>b. seccion_box ej_tabla2 = Inr (Figura b) \<and>
        \<not> (\<exists>r. r \<in> set (rows b) \<and> None \<in> set r))"
proof -
  have a: "ej_parse ''n/d'' = None" by (simp add: ej_parse_def)
  have b: "frame_ok ej_file2 \<and> has_column ej_file2 COL_TIEMPO_ENTRE_FALLAS"
    by (simp add: frame_ok_def has_column_def ej_file2_def COL_TIEMPO_ENTRE_FALLAS_def)
  have c: "seccion_box ej_tabla2 =
      Inr (Figura \<lparr>columns = [''Maquina'', ''Tiempo_Entre_Fallas''],
                   rows = [[Some (Text ''A''), Some (Number 4)],
                           [Some (Text ''A''), Some (Number (15 / 2))],
                           [Some (Text ''D''), Some (Number 8)]]\<rparr>)"
    by code_simp
  note T = coercion_failure_is_missing[of ej_parse "''n/d''" ej_file2 COL_TIEMPO_ENTRE_FALLAS
      "[]" "''Todos''" "Text ''Todas''" ej_tabla2 ej_tabla3]
  note T1 = T[THEN conjunct1, THEN mp, OF a]
  note T2 = T[THEN conjunct2, THEN conjunct1, THEN mp, OF b]
  note T3 = T[THEN conjunct2, THEN conjunct2, THEN conjunct2, THEN conjunct2, THEN conjunct1,
      THEN spec, THEN mp, OF c]
  from T2 have 2: "\<exists>c df'. series ej_file2 COL_TIEMPO_ENTRE_FALLAS = Inr c \<and>
            coerce ej_parse COL_TIEMPO_ENTRE_FALLAS ej_file2 = Inr df' \<and>
            series df' COL_TIEMPO_ENTRE_FALLAS = Inr (map (to_numeric ej_parse) c)" by blast
  from T3 have "\<not> (\<exists>r. r \<in> set (rows \<lparr>columns = [''Maquina'', ''Tiempo_Entre_Fallas''],
                   rows = [[Some (Text ''A''), Some (Number 4)],
                           [Some (Text ''A''), Some (Number (15 / 2))],
                           [Some (Text ''D''), Some (Number 8)]]\<rparr>) \<and> None \<in> set r)"
    by blast
  with c have 3: "\<exists>b. seccion_box ej_tabla2 = Inr (Figura b) \<and>
        \<not> (\<exists>r. r \<in> set (rows b) \<and> None \<in> set r)" by blast
  from T1 2 3 show ?thesis by (intro conjI)
qed

section \<open>Missing machines\<close>

lemma upper_nan: "upper ''nan'' = ''NAN''"
  by (simp add: upper_def upper_char_def)

lemma upper_NAN: "upper ''NAN'' = ''NAN''"
  by (simp add: upper_def upper_char_def)

lemma texts_numbers_set:
  "set vs = Text ` set (texts (map Some vs)) \<union> Number ` set (numbers (map Some vs))"
proof (induction vs)
  case Nil
  then show ?case by (simp add: texts_def numbers_def)
next
  case (Cons v vs)
  then show ?case by (cases v) (auto simp: texts_def numbers_def)
qed

lemma sorted_py_set: "sorted_py vs = Inr ws \<Longrightarrow> set ws = set vs"
  using texts_numbers_set[of vs]
  by (auto simp: sorted_py_def Let_def split: if_splits)


lemma maquinas_Inr:
  assumes "maquinas fmt t1 t2 t3 c = Inr opts"
  shows "\<exists>a b d. maqs_t1 fmt t1 c = Inr a \<and> maqs t2 = Inr b \<and> maqs t3 = Inr d \<and>
                 set opts = set a \<union> set b \<union> set d"
proof -
  from assms obtain a b d where abd: "maqs_t1 fmt t1 c = Inr a" "maqs t2 = Inr b" "maqs t3 = Inr d"
    and s: "sorted_py (remdups (a @ b @ d)) = Inr opts"
    by (auto simp: maquinas_def bind_Inr_iff)
  from sorted_py_set[OF s] have "set opts = set a \<union> set b \<union> set d" by auto
  with abd show ?thesis by blast
qed

lemma maqs_t1_Todos: "maqs_t1 fmt t ''Todos'' = maqs t"
  by (simp add: maqs_t1_def maqs_def)

lemma serie_validos_valid: "s \<in> set (serie_validos fmt c) \<Longrightarrow> s \<noteq> [] \<and> upper s \<noteq> ''NAN''"
  by (auto simp: serie_validos_def Let_def)

lemma texto_maq_top_never_NAN:
  assumes "series t ''Maquina'' = Inr c"
  shows "texto_maq_top fmt t \<noteq> Inr (Maquina_cuenta ''NAN'' n)"
proof (cases "serie_validos fmt c = []")
  case True
  with texto_maq_top_cases[OF assms, of fmt] show ?thesis by simp
next
  case False
  with texto_maq_top_cases[OF assms, of fmt] obtain m where
    m: "texto_maq_top fmt t = Inr (Maquina_cuenta m (count_list (serie_validos fmt c) m))"
       "m \<in> set (serie_validos fmt c)"
    by blast
  from serie_validos_valid[OF m(2)] upper_NAN have "m \<noteq> ''NAN''" by auto
  with m(1) show ?thesis by simp
qed

text \<open>
  Claim C10. A missing machine cell is loaded as the text \<^verbatim>\<open>NAN\<close>, which the selectable
  machines keep, whichever of the three tables it is in, and which the machine filter
  matches, while the indicator of the machine with most failures never reports it.
\<close>

theorem missing_machine_becomes_NAN:
  assumes ok: "frame_ok df" and p: "positions (columns df) ''Maquina'' = [i]"
    and r: "r \<in> set (rows df)" and na: "r ! i = None"
  shows "\<exists>tabla. upper_maquina fmt df = Inr tabla \<and>
           r[i := Some (Text ''NAN'')] \<in> set (rows tabla) \<and>
           (\<exists>ms. maqs tabla = Inr ms \<and> Text ''NAN'' \<in> set ms) \<and>
           (\<forall>t2 t3 opts. maquinas fmt tabla t2 t3 ''Todos'' = Inr opts \<longrightarrow> Text ''NAN'' \<in> set opts) \<and>
           (\<forall>t1 t3 c opts. maquinas fmt t1 tabla t3 c = Inr opts \<longrightarrow> Text ''NAN'' \<in> set opts) \<and>
           (\<forall>t1 t2 c opts. maquinas fmt t1 t2 tabla c = Inr opts \<longrightarrow> Text ''NAN'' \<in> set opts) \<and>
           (\<exists>t. es_maquina (Text ''NAN'') tabla = Inr t \<and>
                r[i := Some (Text ''NAN'')] \<in> set (rows t)) \<and>
           (\<forall>n. texto_maq_top fmt tabla \<noteq> Inr (Maquina_cuenta ''NAN'' n))"
proof -
  let ?g = "\<lambda>c. Some (Text (upper (astype_str fmt c)))"
  let ?tabla = "df\<lparr>rows := map (\<lambda>r. r[i := ?g (r ! i)]) (rows df)\<rparr>"
  let ?r = "r[i := Some (Text ''NAN'')]"
  have load: "upper_maquina fmt df = Inr ?tabla" using p by (rule upper_maquina_eq)
  have g: "?g (r ! i) = Some (Text ''NAN'')" using na by (simp add: astype_str_def upper_nan)
  have row: "?r \<in> set (rows ?tabla)"
    using r g by (auto simp: image_iff intro!: bexI[of _ r])
  have pos: "positions (columns ?tabla) ''Maquina'' = [i]" using p by simp
  have col: "series ?tabla ''Maquina'' = Inr (map (\<lambda>r. ?g (r ! i)) (rows df))"
    using series_updated[OF ok p, of ?g] .
  from p have "i < length (columns df)" by (auto dest: positions_single)
  with ok r have len: "i < length r" by (auto dest: frame_ok_rows)
  then have at: "?r ! i = Some (Text ''NAN'')" by simp
  have cell: "Some (Text ''NAN'') \<in> set (map (\<lambda>r. ?g (r ! i)) (rows df))"
    using r g by (auto simp: image_iff intro!: bexI[of _ r])
  have ms: "maqs ?tabla = Inr (unique (dropna (map (\<lambda>r. ?g (r ! i)) (rows df))))"
    using col by (simp add: maqs_def)
  have inms: "Text ''NAN'' \<in> set (unique (dropna (map (\<lambda>r. ?g (r ! i)) (rows df))))"
    using cell by (simp add: set_dropna)
  have o1: "Text ''NAN'' \<in> set opts" if "maquinas fmt ?tabla t2 t3 ''Todos'' = Inr opts" for t2 t3 opts
    using maquinas_Inr[OF that] ms inms by (auto simp: maqs_t1_Todos)
  have o2: "Text ''NAN'' \<in> set opts" if "maquinas fmt t1 ?tabla t3 c = Inr opts" for t1 t3 c opts
    using maquinas_Inr[OF that] ms inms by auto
  have o3: "Text ''NAN'' \<in> set opts" if "maquinas fmt t1 t2 ?tabla c = Inr opts" for t1 t2 c opts
    using maquinas_Inr[OF that] ms inms by auto
  have es: "es_maquina (Text ''NAN'') ?tabla =
      Inr (?tabla\<lparr>rows := [r \<leftarrow> rows ?tabla. r ! i = Some (Text ''NAN'')]\<rparr>)"
    using pos by (simp add: es_maquina_Inr)
  have keep: "?r \<in> set (rows (?tabla\<lparr>rows := [r \<leftarrow> rows ?tabla. r ! i = Some (Text ''NAN'')]\<rparr>))"
    using row at by simp
  have top: "texto_maq_top fmt ?tabla \<noteq> Inr (Maquina_cuenta ''NAN'' n)" for n
    using col by (rule texto_maq_top_never_NAN)
  from load row ms inms o1 o2 o3 es keep top show ?thesis by blast
qed

theorem missing_machine_becomes_NAN_witness:
  "\<exists>tabla. upper_maquina ej_fmt (renombrar ej_file1) = Inr tabla \<and>
           (\<exists>ms. maqs tabla = Inr ms \<and> Text ''NAN'' \<in> set ms) \<and>
           (\<exists>t. es_maquina (Text ''NAN'') tabla = Inr t \<and>
                [Some (Number 4), Some (Text ''NAN''), Some (Text ''M''), Some (Text ''Q''),
                 Some (Text ''Y'')] \<in> set (rows t))"
proof -
  let ?r = "[Some (Number 4), None, Some (Text ''M''), Some (Text ''Q''), Some (Text ''Y'')]"
  have ok: "frame_ok (renombrar ej_file1)"
    by (simp add: frame_ok_def renombrar_def rename_def ej_file1_def)
  have p: "positions (columns (renombrar ej_file1)) ''Maquina'' = [1]"
    by (simp add: renombrar_def rename_def ej_file1_def)
  have r: "?r \<in> set (rows (renombrar ej_file1))"
    by (simp add: renombrar_def rename_def ej_file1_def)
  have na: "?r ! 1 = None" by simp
  have upd: "?r[1 := Some (Text ''NAN'')] =
    [Some (Number 4), Some (Text ''NAN''), Some (Text ''M''), Some (Text ''Q''), Some (Text ''Y'')]"
    by simp
  from missing_machine_becomes_NAN[OF ok p r na, of ej_fmt] show ?thesis
    unfolding upd by blast
qed

section \<open>Missing columns\<close>




lemma columns_map_column [simp]: "columns (map_column i g df) = columns df"
  by (simp add: map_column_def)




















subsection \<open>The parts of the page return\<close>




















section \<open>The machine selector\<close>

text \<open>
  Claim C4 at the example tables with cluster \<^verbatim>\<open>X\<close> selected: the machines of the cluster
  are \<^verbatim>\<open>A\<close> and \<^verbatim>\<open>B\<close>, yet the selector also offers \<^verbatim>\<open>C\<close> and \<^verbatim>\<open>D\<close>, which come from
  Tables 2 and 3; picking \<^verbatim>\<open>D\<close> leaves the three filtered tables without rows.
\<close>

theorem machine_options_beyond_cluster:
  "maquinas ej_fmt ej_tabla1 ej_tabla2 ej_tabla3 ''X''
     = Inr [Text ''A'', Text ''B'', Text ''C'', Text ''D''] \<and>
   bind (por_cluster ej_fmt ''X'' ej_tabla1) maquinas_cluster = Inr [Text ''A'', Text ''B''] \<and>
   filtros ej_fmt ''X'' (Text ''D'') ej_tabla1 ej_tabla2 ej_tabla3
     = Inr (ej_tabla1\<lparr>rows := []\<rparr>, ej_tabla2\<lparr>rows := []\<rparr>, ej_tabla3\<lparr>rows := []\<rparr>)"
  by code_simp

end
